theory Spec2Isabelle
  imports Main
begin

section \<open>Values and strings of the host language\<close>

text \<open>
  The program is TypeScript. Strings are byte strings here (UTF-8), numbers that occur in
  the modelled data are integers (millisecond timestamps, HTTP status codes, counts), and
  a value that may be \<open>undefined\<close> or \<open>null\<close> is an \<open>option\<close>.
\<close>

datatype json =
    JNull
  | JBool bool
  | JNum int
  | JStr string
  | JArr "json list"
  | JObj "(string \<times> json) list"

text \<open>Errors the code throws, by class, each with its message.\<close>

datatype error =
    Error string
  | TypeError string
  | SyntaxError string

text \<open>
  Decimal printing of a number inside a template literal (the form the language gives
  integers below \<open>10^21\<close> in magnitude).
\<close>

definition digit_char :: "nat \<Rightarrow> char" where
  "digit_char d = ''0123456789'' ! (d mod 10)"

fun show_nat :: "nat \<Rightarrow> string" where
  "show_nat n = (if n < 10 then [digit_char n] else show_nat (n div 10) @ [digit_char n])"

declare show_nat.simps [simp del]

definition show_int :: "int \<Rightarrow> string" where
  "show_int i = (if i < 0 then CHR ''-'' # show_nat (nat (- i)) else show_nat (nat i))"

text \<open>Truthiness (\<open>if (v)\<close>, \<open>v || d\<close>); \<open>None\<close> is \<open>undefined\<close>.\<close>

fun truthy :: "json option \<Rightarrow> bool" where
  "truthy None = False"
| "truthy (Some JNull) = False"
| "truthy (Some (JBool b)) = b"
| "truthy (Some (JNum n)) = (n \<noteq> 0)"
| "truthy (Some (JStr s)) = (s \<noteq> [])"
| "truthy (Some (JArr xs)) = True"
| "truthy (Some (JObj kvs)) = True"

definition truthy_str :: "string option \<Rightarrow> bool" where
  "truthy_str v = (case v of None \<Rightarrow> False | Some s \<Rightarrow> s \<noteq> [])"

text \<open>\<open>a || b\<close> on values.\<close>

definition js_or :: "json option \<Rightarrow> json option \<Rightarrow> json option" where
  "js_or a b = (if truthy a then a else b)"

text \<open>\<open>xs.join(sep)\<close> on strings.\<close>

fun join :: "string \<Rightarrow> string list \<Rightarrow> string" where
  "join sep [] = []"
| "join sep [x] = x"
| "join sep (x # y # ys) = x @ sep @ join sep (y # ys)"

text \<open>
  String conversion of a value in a template literal. An array prints its elements
  joined by commas, with \<open>null\<close> elements printed as the empty string; a plain object
  prints as \<open>[object Object]\<close>.
\<close>

fun to_string :: "json \<Rightarrow> string" where
  "to_string JNull = ''null''"
| "to_string (JBool b) = (if b then ''true'' else ''false'')"
| "to_string (JNum n) = show_int n"
| "to_string (JStr s) = s"
| "to_string (JArr xs) =
     join '','' (map (\<lambda>x. if x = JNull then [] else to_string x) xs)"
| "to_string (JObj kvs) = ''[object Object]''"

definition to_string_opt :: "json option \<Rightarrow> string" where
  "to_string_opt v = (case v of None \<Rightarrow> ''undefined'' | Some x \<Rightarrow> to_string x)"

text \<open>Property access \<open>v.k\<close> on a parsed JSON value that is not \<open>null\<close>.\<close>

fun get_prop :: "json \<Rightarrow> string \<Rightarrow> json option" where
  "get_prop (JObj kvs) k = map_of kvs k"
| "get_prop v k = None"

subsection \<open>Percent encoding\<close>

definition hex_char :: "nat \<Rightarrow> char" where
  "hex_char d = ''0123456789ABCDEF'' ! (d mod 16)"

definition percent_byte :: "char \<Rightarrow> string" where
  "percent_byte c = [CHR ''%'', hex_char (of_char c div 16), hex_char (of_char c)]"

definition is_alnum :: "char \<Rightarrow> bool" where
  "is_alnum c =
     (let n = (of_char c :: nat)
      in (48 \<le> n \<and> n \<le> 57) \<or> (65 \<le> n \<and> n \<le> 90) \<or> (97 \<le> n \<and> n \<le> 122))"

text \<open>\<open>URLSearchParams.toString()\<close>: the form-urlencoded serialiser.\<close>

definition form_encode_char :: "char \<Rightarrow> string" where
  "form_encode_char c =
     (if c = CHR '' '' then ''+''
      else if is_alnum c \<or> c \<in> set ''*-._'' then [c]
      else percent_byte c)"

definition form_encode :: "string \<Rightarrow> string" where
  "form_encode s = concat (map form_encode_char s)"

definition searchParams_toString :: "(string \<times> string) list \<Rightarrow> string" where
  "searchParams_toString ps =
     join ''&'' (map (\<lambda>(k, v). form_encode k @ ''='' @ form_encode v) ps)"

text \<open>\<open>encodeURIComponent\<close>.\<close>

definition encodeURIComponent :: "string \<Rightarrow> string" where
  "encodeURIComponent s =
     concat (map (\<lambda>c. if is_alnum c \<or> c \<in> set ''-_.!~*'' \<or> c \<in> set [CHR 0x27, CHR ''('', CHR '')'']
                      then [c] else percent_byte c) s)"

section \<open>Authentication: credentials, token record, expiry\<close>

definition LINKEDIN_AUTH_URL :: string where
  "LINKEDIN_AUTH_URL = ''https://www.linkedin.com/oauth/v2/authorization''"

definition LINKEDIN_TOKEN_URL :: string where
  "LINKEDIN_TOKEN_URL = ''https://www.linkedin.com/oauth/v2/accessToken''"

definition SCOPES :: "string list" where
  "SCOPES = [''openid'', ''profile'', ''email'', ''w_member_social'']"

record Credentials =
  client_id :: string
  client_secret :: string
  redirect_uri :: "string option"

record TokenData =
  access_token :: string
  expires_in :: int
  expires_at :: int
  scope :: "string option"
  token_type :: "string option"
  id_token :: "string option"
  sub :: "json option"
  name :: "json option"
  email :: "json option"

text \<open>
  The token file is modelled by what \<open>loadToken\<close> returns: \<open>None\<close> when the file is
  missing or unreadable, the record otherwise. \<open>saveToken\<close> overwrites it; the JSON text
  in between is not modelled. The clock (\<open>Date.now()\<close>, milliseconds) is an argument.
  \<open>expires_at\<close> is a number of the record's declared type; among the integers only 0 is
  falsy.
\<close>

type_synonym token_store = "TokenData option"

definition loadToken :: "token_store \<Rightarrow> TokenData option" where
  "loadToken store = store"

definition saveToken :: "TokenData \<Rightarrow> token_store \<Rightarrow> token_store" where
  "saveToken token store = Some token"

definition isAuthenticated :: "token_store \<Rightarrow> int \<Rightarrow> bool" where
  "isAuthenticated store now =
     (case loadToken store of
        None \<Rightarrow> False
      | Some token \<Rightarrow>
          if expires_at token \<noteq> 0 \<and> now \<ge> expires_at token then False else True)"

definition getAccessToken :: "token_store \<Rightarrow> int \<Rightarrow> string option" where
  "getAccessToken store now =
     (case loadToken store of
        None \<Rightarrow> None
      | Some token \<Rightarrow>
          if expires_at token \<noteq> 0 \<and> now \<ge> expires_at token then None
          else Some (access_token token))"

definition getUserInfo :: "token_store \<Rightarrow> (json option \<times> json option \<times> json option) option" where
  "getUserInfo store =
     (case loadToken store of
        None \<Rightarrow> None
      | Some token \<Rightarrow> Some (sub token, name token, email token))"

section \<open>HTTP as the client sees it\<close>

text \<open>
  A request is what \<open>fetch\<close> is given. A JSON request body is kept as the value handed
  to \<open>JSON.stringify\<close> (a property whose value is \<open>undefined\<close> is left out, as the
  serialiser does), a form body as its encoded text.
\<close>

datatype http_method = GET | POST | DELETE

datatype request_body = NoBody | JsonBody json | FormBody string

record request =
  meth :: http_method
  url :: string
  req_headers :: "(string \<times> string) list"
  req_body :: request_body

text \<open>
  A response: its status, its headers (names in lower case, as \<open>headers.get\<close> compares
  them), the body as text (\<open>response.text()\<close>) and as \<open>response.json()\<close> reads it:
  \<open>None\<close> when the body is not JSON (the call throws a \<open>SyntaxError\<close>), the fields of the
  JSON object otherwise. A body that is JSON but not an object is not modelled.
\<close>

record response =
  status :: nat
  headers :: "(string \<times> string) list"
  body_text :: string
  body_json :: "(string \<times> json) list option"

text \<open>\<open>fetch\<close> either rejects (no response arrived) or resolves with a response.\<close>

datatype outcome = TransportError string | Response response

text \<open>
  The network answers each request. Within one operation every candidate is a different
  request (method and URL), so a function of the request describes any run of it.
\<close>

type_synonym network = "request \<Rightarrow> outcome"

definition ok :: "response \<Rightarrow> bool" where
  "ok r = (200 \<le> status r \<and> status r \<le> 299)"

text \<open>\<open>response.headers.get(name)\<close>.\<close>

definition headers_get :: "response \<Rightarrow> string \<Rightarrow> string option" where
  "headers_get r n = map_of (headers r) n"

section \<open>Authorization flow\<close>

subsection \<open>Authorization URL\<close>

definition effective_redirect_uri :: "Credentials \<Rightarrow> string" where
  "effective_redirect_uri credentials =
     (if truthy_str (redirect_uri credentials)
      then (case redirect_uri credentials of Some u \<Rightarrow> u | None \<Rightarrow> [])
      else ''http://127.0.0.1:3000/callback'')"

text \<open>
  The state token is \<open>Math.random().toString(36).substring(7)\<close>; the random draw is the
  argument \<open>state\<close>.
\<close>

definition authParams :: "Credentials \<Rightarrow> string \<Rightarrow> (string \<times> string) list" where
  "authParams credentials state =
     [(''response_type'', ''code''),
      (''client_id'', client_id credentials),
      (''redirect_uri'', effective_redirect_uri credentials),
      (''scope'', join '' '' SCOPES),
      (''state'', state)]"

definition authUrl :: "Credentials \<Rightarrow> string \<Rightarrow> string" where
  "authUrl credentials state =
     LINKEDIN_AUTH_URL @ ''?'' @ searchParams_toString (authParams credentials state)"

subsection \<open>Code-for-token exchange\<close>

text \<open>
  The token endpoint's JSON body, in the shape the provider documents:
  \<open>{access_token, expires_in, scope?, token_type?, id_token?}\<close>.
\<close>

record TokenJson =
  tj_access_token :: string
  tj_expires_in :: int
  tj_scope :: "string option"
  tj_token_type :: "string option"
  tj_id_token :: "string option"

datatype token_outcome =
    TokenTransportError string
  | TokenResponse nat string "TokenJson option"

definition token_request :: "string \<Rightarrow> Credentials \<Rightarrow> string \<Rightarrow> request" where
  "token_request code credentials redirectUri =
     \<lparr>meth = POST, url = LINKEDIN_TOKEN_URL,
      req_headers = [(''Content-Type'', ''application/x-www-form-urlencoded'')],
      req_body = FormBody (searchParams_toString
        [(''grant_type'', ''authorization_code''),
         (''code'', code),
         (''client_id'', client_id credentials),
         (''client_secret'', client_secret credentials),
         (''redirect_uri'', redirectUri)])\<rparr>"

text \<open>
  \<open>now\<close> is the reading of \<open>Date.now()\<close> taken once the token response has been
  parsed: the time of issue.
\<close>

definition exchangeCodeForToken ::
  "(request \<Rightarrow> token_outcome) \<Rightarrow> int \<Rightarrow> string \<Rightarrow> Credentials \<Rightarrow> string \<Rightarrow> error + TokenData" where
  "exchangeCodeForToken token_fetch now code credentials redirectUri =
     (case token_fetch (token_request code credentials redirectUri) of
        TokenTransportError m \<Rightarrow> Inl (TypeError m)
      | TokenResponse st txt parsed \<Rightarrow>
          if \<not> (200 \<le> st \<and> st \<le> 299) then Inl (Error (''Token exchange failed: '' @ txt))
          else (case parsed of
                  None \<Rightarrow> Inl (SyntaxError ''Unexpected token'')
                | Some tokenData \<Rightarrow>
                    let expiresAt = now + tj_expires_in tokenData * 1000
                    in Inr \<lparr>access_token = tj_access_token tokenData,
                            expires_in = tj_expires_in tokenData,
                            expires_at = expiresAt,
                            scope = tj_scope tokenData,
                            token_type = tj_token_type tokenData,
                            id_token = tj_id_token tokenData,
                            sub = None, name = None, email = None\<rparr>))"

subsection \<open>Identity fetch during authentication\<close>

record UserInfo =
  ui_sub :: "json option"
  ui_name :: "json option"
  ui_email :: "json option"

definition auth_userinfo_request :: "string \<Rightarrow> request" where
  "auth_userinfo_request token =
     \<lparr>meth = GET, url = ''https://api.linkedin.com/v2/userinfo'',
      req_headers = [(''Authorization'', ''Bearer '' @ token)], req_body = NoBody\<rparr>"

definition auth_me_request :: "string \<Rightarrow> request" where
  "auth_me_request token =
     \<lparr>meth = GET, url = ''https://api.linkedin.com/rest/me'',
      req_headers = [(''Authorization'', ''Bearer '' @ token), (''LinkedIn-Version'', ''202401'')],
      req_body = NoBody\<rparr>"

text \<open>
  One guarded attempt of \<open>fetchUserInfo\<close>: the \<open>try\<close> block returns from the function
  when the response is ok and its JSON parses; every other outcome (also a thrown error)
  falls out of the block.
\<close>

definition guarded_json :: "outcome \<Rightarrow> (string \<times> json) list option" where
  "guarded_json out =
     (case out of
        TransportError m \<Rightarrow> None
      | Response r \<Rightarrow> if ok r then body_json r else None)"

definition fetchUserInfo :: "network \<Rightarrow> string \<Rightarrow> UserInfo" where
  "fetchUserInfo net token =
     (case guarded_json (net (auth_userinfo_request token)) of
        Some data \<Rightarrow>
          \<lparr>ui_sub = map_of data ''sub'', ui_name = map_of data ''name'',
           ui_email = map_of data ''email''\<rparr>
      | None \<Rightarrow>
          (case guarded_json (net (auth_me_request token)) of
             Some data \<Rightarrow>
               \<lparr>ui_sub = js_or (map_of data ''sub'') (map_of data ''id''),
                ui_name = js_or (map_of data ''name'') (map_of data ''localizedFirstName''),
                ui_email = None\<rparr>
           | None \<Rightarrow> \<lparr>ui_sub = None, ui_name = None, ui_email = None\<rparr>))"

subsection \<open>Callback listener\<close>

text \<open>
  The handler reads a request through \<open>new URL(req.url || "", base)\<close>. The constructor
  either throws (the request target is not a URL against that base) or yields the path
  and the query parameters.
\<close>

record parsed_url =
  hostname :: string
  port :: string
  pathname :: string
  searchParams :: "(string \<times> string) list"

datatype incoming = BadTarget | Target parsed_url

text \<open>\<open>searchParams.get(k)\<close>: the first value of that name, or \<open>null\<close>.\<close>

definition searchParams_get :: "parsed_url \<Rightarrow> string \<Rightarrow> string option" where
  "searchParams_get u k = map_of (searchParams u) k"

record http_reply =
  reply_status :: nat
  reply_headers :: "(string \<times> string) list"
  reply_body :: string

text \<open>The promise the flow awaits: the first \<open>resolve\<close> or \<open>reject\<close> settles it.\<close>

datatype 'a promise = Pending | Resolved 'a | Rejected error

definition resolve :: "'a \<Rightarrow> 'a promise \<Rightarrow> 'a promise" where
  "resolve v p = (case p of Pending \<Rightarrow> Resolved v | _ \<Rightarrow> p)"

definition reject :: "error \<Rightarrow> 'a promise \<Rightarrow> 'a promise" where
  "reject e p = (case p of Pending \<Rightarrow> Rejected e | _ \<Rightarrow> p)"

text \<open>
  The listener: whether the server still accepts connections on its port
  (\<open>server.close()\<close> ends that), and the promise of the authorization code.
\<close>

record listener =
  listening :: bool
  code_promise :: "string promise"

definition string_or_null :: "string option \<Rightarrow> string" where
  "string_or_null v = (case v of None \<Rightarrow> ''null'' | Some s \<Rightarrow> s)"

definition html_reply :: "nat \<Rightarrow> string \<Rightarrow> http_reply" where
  "html_reply st body =
     \<lparr>reply_status = st, reply_headers = [(''Content-Type'', ''text/html'')], reply_body = body\<rparr>"

text \<open>The request handler given to \<open>http.createServer\<close>: new state and the reply sent, if any.\<close>

fun handle_request :: "string \<Rightarrow> listener \<Rightarrow> incoming \<Rightarrow> listener \<times> http_reply option" where
  "handle_request callbackPath srv BadTarget =
     (srv\<lparr>code_promise := reject (TypeError ''Invalid URL'') (code_promise srv)\<rparr>, None)"
| "handle_request callbackPath srv (Target u) =
     (if pathname u = callbackPath then
        (let code = searchParams_get u ''code'';
             err = searchParams_get u ''error''
         in if truthy_str err then
              (srv\<lparr>code_promise :=
                     reject (Error (''OAuth error: '' @ string_or_null err)) (code_promise srv)\<rparr>,
               Some (html_reply 400
                 (''<html><body><h1>Error</h1><p>'' @ string_or_null err @ '': ''
                    @ string_or_null (searchParams_get u ''error_description'')
                    @ ''</p></body></html>'')))
            else if truthy_str code then
              (srv\<lparr>listening := False,
                    code_promise := resolve (string_or_null code) (code_promise srv)\<rparr>,
               Some (html_reply 200
                 ''<html><body><h1>Authentication successful!</h1><p>You can close this window and return to the terminal.</p></body></html>''))
            else
              (srv\<lparr>code_promise :=
                     reject (Error ''No authorization code received'') (code_promise srv)\<rparr>,
               Some (html_reply 400
                 ''<html><body><h1>Error</h1><p>No authorization code received.</p></body></html>'')))
      else (srv, None))"

text \<open>
  Requests arrive one after another; one that arrives after \<open>server.close()\<close> finds no
  listener and is refused without reaching the handler.
\<close>

fun serve :: "string \<Rightarrow> listener \<Rightarrow> incoming list \<Rightarrow> listener \<times> http_reply option list" where
  "serve callbackPath srv [] = (srv, [])"
| "serve callbackPath srv (r # rs) =
     (if listening srv then
        (let (srv', reply) = handle_request callbackPath srv r;
             (srv'', replies) = serve callbackPath srv' rs
         in (srv'', reply # replies))
      else (let (srv'', replies) = serve callbackPath srv rs in (srv'', None # replies)))"

subsection \<open>The flow\<close>

definition is_digit :: "char \<Rightarrow> bool" where
  "is_digit c = (48 \<le> (of_char c :: nat) \<and> (of_char c :: nat) \<le> 57)"

text \<open>\<open>parseInt\<close> on a port string (digits only, or empty): \<open>None\<close> is \<open>NaN\<close>.\<close>

definition parseInt :: "string \<Rightarrow> nat option" where
  "parseInt s =
     (let ds = takeWhile is_digit s
      in if ds = [] then None else Some (foldl (\<lambda>a c. 10 * a + (of_char c - 48)) 0 ds))"

definition callbackPort :: "parsed_url \<Rightarrow> nat" where
  "callbackPort u = (case parseInt (port u) of None \<Rightarrow> 3000 | Some n \<Rightarrow> if n = 0 then 3000 else n)"

definition callbackPath :: "parsed_url \<Rightarrow> string" where
  "callbackPath u = (if pathname u = [] then ''/callback'' else pathname u)"

definition callbackHost :: "parsed_url \<Rightarrow> string" where
  "callbackHost u = (if hostname u = [] then ''127.0.0.1'' else hostname u)"

definition credentials_missing :: "string \<Rightarrow> error" where
  "credentials_missing CREDENTIALS_PATH =
     (let nl = [CHR 0x0A]; dq = [CHR 0x22]
      in Error (''Credentials not found. Please create '' @ CREDENTIALS_PATH
            @ '' with your LinkedIn OAuth credentials.'' @ nl @ nl
            @ ''Example:'' @ nl
            @ ''{'' @ nl
            @ ''  '' @ dq @ ''client_id'' @ dq @ '': '' @ dq @ ''your_client_id'' @ dq @ '','' @ nl
            @ ''  '' @ dq @ ''client_secret'' @ dq @ '': '' @ dq @ ''your_client_secret'' @ dq @ nl
            @ ''}''))"

text \<open>What one run of the flow leaves behind.\<close>

record auth_run =
  returned :: "(error + TokenData) option"
  store_after :: token_store
  server :: "listener option"
  replies :: "http_reply option list"

text \<open>
  \<open>authenticateInteractive\<close>. Its surroundings are arguments: the URL parser applied to
  the redirect URI (\<open>None\<close> when \<open>new URL\<close> throws), what \<open>loadCredentials\<close> returned,
  the random state token, the requests that reach the listener, the token endpoint, the
  API, the clock at exchange time and the token file. The flow has no timeout: when no
  request settles the promise it never returns, which is \<open>returned = None\<close>. Console
  output and the launch of the browser leave no trace in the result and are left out.
\<close>

definition authenticateInteractive ::
  "string \<Rightarrow> (string \<Rightarrow> parsed_url option) \<Rightarrow> Credentials option \<Rightarrow> string \<Rightarrow> incoming list
     \<Rightarrow> (request \<Rightarrow> token_outcome) \<Rightarrow> network \<Rightarrow> int \<Rightarrow> token_store \<Rightarrow> auth_run" where
  "authenticateInteractive CREDENTIALS_PATH parse_url loaded state reqs token_fetch net now store =
     (case loaded of
        None \<Rightarrow>
          \<lparr>returned = Some (Inl (credentials_missing CREDENTIALS_PATH)), store_after = store,
           server = None, replies = []\<rparr>
      | Some credentials \<Rightarrow>
          (let redirectUri = effective_redirect_uri credentials in
           case parse_url redirectUri of
             None \<Rightarrow>
               \<lparr>returned = Some (Inl (TypeError ''Invalid URL'')), store_after = store,
                server = None, replies = []\<rparr>
           | Some parsedRedirectUri \<Rightarrow>
               (let (srv, sent) =
                      serve (callbackPath parsedRedirectUri)
                        \<lparr>listening = True, code_promise = Pending\<rparr> reqs
                in case code_promise srv of
                     Pending \<Rightarrow>
                       \<lparr>returned = None, store_after = store, server = Some srv, replies = sent\<rparr>
                   | Rejected e \<Rightarrow>
                       \<lparr>returned = Some (Inl e), store_after = store, server = Some srv,
                        replies = sent\<rparr>
                   | Resolved code \<Rightarrow>
                       (case exchangeCodeForToken token_fetch now code credentials redirectUri of
                          Inl e \<Rightarrow>
                            \<lparr>returned = Some (Inl e), store_after = store, server = Some srv,
                             replies = sent\<rparr>
                        | Inr tokenData \<Rightarrow>
                            (let userInfo = fetchUserInfo net (access_token tokenData);
                                 tokenData' = tokenData\<lparr>sub := ui_sub userInfo,
                                                         name := ui_name userInfo,
                                                         email := ui_email userInfo\<rparr>
                             in \<lparr>returned = Some (Inr tokenData'),
                                 store_after = saveToken tokenData' store,
                                 server = Some srv, replies = sent\<rparr>)))))"

section \<open>API client\<close>

definition LINKEDIN_API_URL :: string where
  "LINKEDIN_API_URL = ''https://api.linkedin.com''"

record LinkedInClient =
  accessToken :: string
  memberUrn :: "string option"

definition new_client :: "string \<Rightarrow> LinkedInClient" where
  "new_client token = \<lparr>accessToken = token, memberUrn = None\<rparr>"

definition getHeaders :: "LinkedInClient \<Rightarrow> bool \<Rightarrow> (string \<times> string) list" where
  "getHeaders c version =
     [(''Authorization'', ''Bearer '' @ accessToken c),
      (''Content-Type'', ''application/json''),
      (''X-Restli-Protocol-Version'', ''2.0.0'')]
     @ (if version then [(''LinkedIn-Version'', ''202401'')] else [])"

datatype visibility = PUBLIC | CONNECTIONS | LOGGED_IN

fun visibility_string :: "visibility \<Rightarrow> string" where
  "visibility_string PUBLIC = ''PUBLIC''"
| "visibility_string CONNECTIONS = ''CONNECTIONS''"
| "visibility_string LOGGED_IN = ''LOGGED_IN''"

subsection \<open>Identity resolution\<close>

definition rest_me_request :: "LinkedInClient \<Rightarrow> request" where
  "rest_me_request c =
     \<lparr>meth = GET, url = LINKEDIN_API_URL @ ''/rest/me'', req_headers = getHeaders c True,
      req_body = NoBody\<rparr>"

definition userinfo_request :: "LinkedInClient \<Rightarrow> request" where
  "userinfo_request c =
     \<lparr>meth = GET, url = LINKEDIN_API_URL @ ''/v2/userinfo'',
      req_headers = [(''Authorization'', ''Bearer '' @ accessToken c)], req_body = NoBody\<rparr>"

definition v2_me_request :: "LinkedInClient \<Rightarrow> request" where
  "v2_me_request c =
     \<lparr>meth = GET, url = LINKEDIN_API_URL @ ''/v2/me'', req_headers = getHeaders c False,
      req_body = NoBody\<rparr>"

text \<open>
  One \<open>try\<close> block of \<open>getMemberUrn\<close>: it returns the URN when the response is ok, its
  JSON parses and the field named \<open>key\<close> is truthy; otherwise, and on any thrown error,
  control falls to the next block.
\<close>

definition urn_of :: "outcome \<Rightarrow> string \<Rightarrow> string option" where
  "urn_of out key =
     (case guarded_json out of
        None \<Rightarrow> None
      | Some data \<Rightarrow>
          if truthy (map_of data key)
          then Some (''urn:li:person:'' @ to_string_opt (map_of data key))
          else None)"

definition urn_unresolved :: error where
  "urn_unresolved = Error ''Unable to determine member URN. Please ensure you have 'Sign In with LinkedIn using OpenID Connect' product enabled in your LinkedIn app.''"

text \<open>
  Every operation returns its result (\<open>Inl\<close>: the error thrown), the client with its
  cache as the call left it, and the requests it issued, in order.
\<close>

definition resolveMemberUrn ::
  "network \<Rightarrow> LinkedInClient \<Rightarrow> (error + string) \<times> LinkedInClient \<times> request list" where
  "resolveMemberUrn net c =
     (case urn_of (net (rest_me_request c)) ''sub'' of
        Some urn \<Rightarrow> (Inr urn, c\<lparr>memberUrn := Some urn\<rparr>, [rest_me_request c])
      | None \<Rightarrow>
          (case urn_of (net (userinfo_request c)) ''sub'' of
             Some urn \<Rightarrow>
               (Inr urn, c\<lparr>memberUrn := Some urn\<rparr>, [rest_me_request c, userinfo_request c])
           | None \<Rightarrow>
               (case urn_of (net (v2_me_request c)) ''id'' of
                  Some urn \<Rightarrow>
                    (Inr urn, c\<lparr>memberUrn := Some urn\<rparr>,
                     [rest_me_request c, userinfo_request c, v2_me_request c])
                | None \<Rightarrow>
                    (Inl urn_unresolved, c,
                     [rest_me_request c, userinfo_request c, v2_me_request c]))))"

definition getMemberUrn ::
  "network \<Rightarrow> LinkedInClient \<Rightarrow> (error + string) \<times> LinkedInClient \<times> request list" where
  "getMemberUrn net c =
     (case memberUrn c of
        None \<Rightarrow> resolveMemberUrn net c
      | Some cached \<Rightarrow> if cached = [] then resolveMemberUrn net c else (Inr cached, c, []))"

subsection \<open>Profile\<close>

text \<open>
  A profile is the object the call returns: its properties in order, a property whose
  value is \<open>undefined\<close> carrying \<open>None\<close>.
\<close>

type_synonym Profile = "(string \<times> json option) list"

definition is_space :: "char \<Rightarrow> bool" where
  "is_space c = (c \<in> set [CHR '' '', CHR 0x09, CHR 0x0A, CHR 0x0B, CHR 0x0C, CHR 0x0D])"

text \<open>\<open>s.trim()\<close> (ASCII white space).\<close>

definition trim :: "string \<Rightarrow> string" where
  "trim s = rev (dropWhile is_space (rev (dropWhile is_space s)))"

definition getProfile :: "network \<Rightarrow> LinkedInClient \<Rightarrow> (error + Profile) \<times> request list" where
  "getProfile net c =
     (case guarded_json (net (userinfo_request c)) of
        Some data \<Rightarrow> (Inr (map (\<lambda>(k, v). (k, Some v)) data), [userinfo_request c])
      | None \<Rightarrow>
          (case guarded_json (net (rest_me_request c)) of
             Some data \<Rightarrow>
               (Inr [(''sub'', js_or (map_of data ''sub'') (map_of data ''id'')),
                     (''name'', js_or (map_of data ''name'') (map_of data ''localizedFirstName''))],
                [userinfo_request c, rest_me_request c])
           | None \<Rightarrow>
               (case net (v2_me_request c) of
                  TransportError m \<Rightarrow>
                    (Inl (TypeError m), [userinfo_request c, rest_me_request c, v2_me_request c])
                | Response response \<Rightarrow>
                    (if ok response then
                       (case body_json response of
                          None \<Rightarrow> Inl (SyntaxError ''Unexpected token'')
                        | Some data \<Rightarrow>
                            Inr [(''sub'', map_of data ''id''),
                                 (''given_name'', map_of data ''localizedFirstName''),
                                 (''family_name'', map_of data ''localizedLastName''),
                                 (''name'', Some (JStr (trim
                                    (to_string_opt (js_or (map_of data ''localizedFirstName'') (Some (JStr [])))
                                     @ '' ''
                                     @ to_string_opt (js_or (map_of data ''localizedLastName'') (Some (JStr [])))))))])
                     else Inl (Error ''Failed to fetch profile''),
                     [userinfo_request c, rest_me_request c, v2_me_request c]))))"

subsection \<open>Creating posts\<close>

text \<open>The result's \<open>id\<close> is the field \<open>post_id\<close> here.\<close>

record PostResult =
  success :: bool
  post_id :: "json option"
  message :: "string option"

definition distribution :: json where
  "distribution =
     JObj [(''feedDistribution'', JStr ''MAIN_FEED''),
           (''targetEntities'', JArr []),
           (''thirdPartyDistributionChannels'', JArr [])]"

definition postData :: "string \<Rightarrow> string \<Rightarrow> visibility \<Rightarrow> json" where
  "postData urn txt vis =
     JObj [(''author'', JStr urn),
           (''commentary'', JStr txt),
           (''visibility'', JStr (visibility_string vis)),
           (''distribution'', distribution),
           (''lifecycleState'', JStr ''PUBLISHED''),
           (''isReshareDisabledByAuthor'', JBool False)]"

definition legacyPostData :: "string \<Rightarrow> string \<Rightarrow> visibility \<Rightarrow> json" where
  "legacyPostData urn txt vis =
     JObj [(''author'', JStr urn),
           (''lifecycleState'', JStr ''PUBLISHED''),
           (''specificContent'',
              JObj [(''com.linkedin.ugc.ShareContent'',
                 JObj [(''shareCommentary'', JObj [(''text'', JStr txt)]),
                       (''shareMediaCategory'', JStr ''NONE'')])]),
           (''visibility'',
              JObj [(''com.linkedin.ugc.MemberNetworkVisibility'', JStr (visibility_string vis))])]"

definition posts_request :: "LinkedInClient \<Rightarrow> json \<Rightarrow> request" where
  "posts_request c payload =
     \<lparr>meth = POST, url = LINKEDIN_API_URL @ ''/rest/posts'', req_headers = getHeaders c True,
      req_body = JsonBody payload\<rparr>"

definition ugcPosts_request :: "LinkedInClient \<Rightarrow> json \<Rightarrow> request" where
  "ugcPosts_request c payload =
     \<lparr>meth = POST, url = LINKEDIN_API_URL @ ''/v2/ugcPosts'', req_headers = getHeaders c False,
      req_body = JsonBody payload\<rparr>"

text \<open>\<open>response.headers.get("x-restli-id") || "created"\<close>.\<close>

definition restli_id :: "response \<Rightarrow> string" where
  "restli_id r =
     (case headers_get r ''x-restli-id'' of
        None \<Rightarrow> ''created''
      | Some v \<Rightarrow> if v = [] then ''created'' else v)"

text \<open>
  The two requests that \<open>createPost\<close> and \<open>createArticlePost\<close> share once the payloads
  are built: the current posts endpoint, then the legacy one. \<open>what\<close> is the word the
  final error message uses for the operation.
\<close>

definition send_post ::
  "network \<Rightarrow> request \<Rightarrow> request \<Rightarrow> string \<Rightarrow> (error + PostResult) \<times> request list" where
  "send_post net current legacy what =
     (case net current of
        TransportError m \<Rightarrow> (Inl (TypeError m), [current])
      | Response response \<Rightarrow>
          if ok response \<or> status response = 201 then
            (Inr \<lparr>success = True, post_id = Some (JStr (restli_id response)), message = None\<rparr>,
             [current])
          else
            (case net legacy of
               TransportError m \<Rightarrow> (Inl (TypeError m), [current, legacy])
             | Response response \<Rightarrow>
                 if ok response \<or> status response = 201 then
                   (case body_json response of
                      None \<Rightarrow> (Inl (SyntaxError ''Unexpected token''), [current, legacy])
                    | Some data \<Rightarrow>
                        (Inr \<lparr>success = True, post_id = map_of data ''id'', message = None\<rparr>,
                         [current, legacy]))
                 else
                   (Inl (Error (''Failed to create '' @ what @ '': '' @ show_nat (status response)
                                @ '' - '' @ body_text response)),
                    [current, legacy])))"

definition createPost ::
  "network \<Rightarrow> LinkedInClient \<Rightarrow> string \<Rightarrow> visibility
     \<Rightarrow> (error + PostResult) \<times> LinkedInClient \<times> request list" where
  "createPost net c txt vis =
     (case getMemberUrn net c of
        (Inl e, c', issued) \<Rightarrow> (Inl e, c', issued)
      | (Inr urn, c', issued) \<Rightarrow>
          (let (res, sent) =
                 send_post net (posts_request c' (postData urn txt vis))
                   (ugcPosts_request c' (legacyPostData urn txt vis)) ''post''
           in (res, c', issued @ sent)))"

definition articlePostData ::
  "string \<Rightarrow> string \<Rightarrow> string \<Rightarrow> string option \<Rightarrow> string option \<Rightarrow> visibility \<Rightarrow> json" where
  "articlePostData urn txt articleUrl title description vis =
     JObj [(''author'', JStr urn),
           (''commentary'', JStr txt),
           (''visibility'', JStr (visibility_string vis)),
           (''distribution'', distribution),
           (''content'',
              JObj [(''article'',
                 JObj ([(''source'', JStr articleUrl)]
                       @ (case title of None \<Rightarrow> [] | Some t \<Rightarrow> [(''title'', JStr t)])
                       @ (case description of None \<Rightarrow> []
                          | Some d \<Rightarrow> [(''description'', JStr d)])))]),
           (''lifecycleState'', JStr ''PUBLISHED''),
           (''isReshareDisabledByAuthor'', JBool False)]"

definition mediaItem :: "string \<Rightarrow> string option \<Rightarrow> string option \<Rightarrow> json" where
  "mediaItem articleUrl title description =
     JObj ([(''status'', JStr ''READY''), (''originalUrl'', JStr articleUrl)]
           @ (if truthy_str title
              then [(''title'', JObj [(''text'', JStr (string_or_null title))])] else [])
           @ (if truthy_str description
              then [(''description'', JObj [(''text'', JStr (string_or_null description))])]
              else []))"

definition legacyArticlePostData ::
  "string \<Rightarrow> string \<Rightarrow> string \<Rightarrow> string option \<Rightarrow> string option \<Rightarrow> visibility \<Rightarrow> json" where
  "legacyArticlePostData urn txt articleUrl title description vis =
     JObj [(''author'', JStr urn),
           (''lifecycleState'', JStr ''PUBLISHED''),
           (''specificContent'',
              JObj [(''com.linkedin.ugc.ShareContent'',
                 JObj [(''shareCommentary'', JObj [(''text'', JStr txt)]),
                       (''shareMediaCategory'', JStr ''ARTICLE''),
                       (''media'', JArr [mediaItem articleUrl title description])])]),
           (''visibility'',
              JObj [(''com.linkedin.ugc.MemberNetworkVisibility'', JStr (visibility_string vis))])]"

definition createArticlePost ::
  "network \<Rightarrow> LinkedInClient \<Rightarrow> string \<Rightarrow> string \<Rightarrow> string option \<Rightarrow> string option \<Rightarrow> visibility
     \<Rightarrow> (error + PostResult) \<times> LinkedInClient \<times> request list" where
  "createArticlePost net c txt articleUrl title description vis =
     (case getMemberUrn net c of
        (Inl e, c', issued) \<Rightarrow> (Inl e, c', issued)
      | (Inr urn, c', issued) \<Rightarrow>
          (let (res, sent) =
                 send_post net
                   (posts_request c' (articlePostData urn txt articleUrl title description vis))
                   (ugcPosts_request c'
                      (legacyArticlePostData urn txt articleUrl title description vis))
                   ''article post''
           in (res, c', issued @ sent)))"

subsection \<open>Listing and deleting posts, connection count\<close>

record PostsResult =
  posts :: json
  posts_message :: "string option"

definition getPosts_request :: "LinkedInClient \<Rightarrow> string \<Rightarrow> int \<Rightarrow> request" where
  "getPosts_request c urn n =
     \<lparr>meth = GET,
      url = LINKEDIN_API_URL @ ''/v2/ugcPosts?q=authors&authors=List('' @ encodeURIComponent urn
            @ '')&count='' @ show_int n,
      req_headers = getHeaders c False, req_body = NoBody\<rparr>"

definition getPosts ::
  "network \<Rightarrow> LinkedInClient \<Rightarrow> int \<Rightarrow> (error + PostsResult) \<times> LinkedInClient \<times> request list" where
  "getPosts net c n =
     (case getMemberUrn net c of
        (Inl e, c', issued) \<Rightarrow> (Inl e, c', issued)
      | (Inr urn, c', issued) \<Rightarrow>
          (case net (getPosts_request c' urn n) of
             TransportError m \<Rightarrow> (Inl (TypeError m), c', issued @ [getPosts_request c' urn n])
           | Response response \<Rightarrow>
               (if ok response then
                  (case body_json response of
                     None \<Rightarrow> Inl (SyntaxError ''Unexpected token'')
                   | Some data \<Rightarrow>
                       Inr \<lparr>posts = (case js_or (map_of data ''elements'') (Some (JArr [])) of
                                        Some v \<Rightarrow> v | None \<Rightarrow> JArr []),
                            posts_message = None\<rparr>)
                else
                  Inr \<lparr>posts = JArr [],
                       posts_message = Some ''Unable to fetch posts. This may require additional LinkedIn API permissions.''\<rparr>,
                c', issued @ [getPosts_request c' urn n])))"

text \<open>The result of \<open>deletePost\<close>: \<open>success\<close> is the field \<open>deleted\<close> here.\<close>

record DeleteResult =
  deleted :: bool
  delete_message :: "string option"

definition delete_rest_request :: "LinkedInClient \<Rightarrow> string \<Rightarrow> request" where
  "delete_rest_request c postId =
     \<lparr>meth = DELETE, url = LINKEDIN_API_URL @ ''/rest/posts/'' @ encodeURIComponent postId,
      req_headers = getHeaders c True, req_body = NoBody\<rparr>"

definition delete_legacy_request :: "LinkedInClient \<Rightarrow> string \<Rightarrow> request" where
  "delete_legacy_request c postId =
     \<lparr>meth = DELETE, url = LINKEDIN_API_URL @ ''/v2/ugcPosts/'' @ encodeURIComponent postId,
      req_headers = getHeaders c False, req_body = NoBody\<rparr>"

definition deletePost ::
  "network \<Rightarrow> LinkedInClient \<Rightarrow> string \<Rightarrow> (error + DeleteResult) \<times> request list" where
  "deletePost net c postId =
     (case net (delete_rest_request c postId) of
        TransportError m \<Rightarrow> (Inl (TypeError m), [delete_rest_request c postId])
      | Response response \<Rightarrow>
          if ok response \<or> status response = 204 then
            (Inr \<lparr>deleted = True, delete_message = None\<rparr>, [delete_rest_request c postId])
          else
            (case net (delete_legacy_request c postId) of
               TransportError m \<Rightarrow>
                 (Inl (TypeError m), [delete_rest_request c postId, delete_legacy_request c postId])
             | Response response \<Rightarrow>
                 (if ok response \<or> status response = 204 then
                    Inr \<lparr>deleted = True, delete_message = None\<rparr>
                  else
                    Inr \<lparr>deleted = False,
                         delete_message =
                           Some (''Failed to delete post: '' @ show_nat (status response))\<rparr>,
                  [delete_rest_request c postId, delete_legacy_request c postId])))"

text \<open>The result of \<open>getConnectionsCount\<close>: \<open>count\<close> is the field \<open>connections\<close> here.\<close>

record CountResult =
  connections :: json
  count_message :: "string option"

definition connections_request :: "LinkedInClient \<Rightarrow> request" where
  "connections_request c =
     \<lparr>meth = GET, url = LINKEDIN_API_URL @ ''/v2/connections?q=viewer&start=0&count=0'',
      req_headers = getHeaders c False, req_body = NoBody\<rparr>"

text \<open>\<open>data.paging?.total\<close>.\<close>

definition paging_total :: "(string \<times> json) list \<Rightarrow> json option" where
  "paging_total data =
     (case map_of data ''paging'' of
        None \<Rightarrow> None
      | Some JNull \<Rightarrow> None
      | Some paging \<Rightarrow> get_prop paging ''total'')"

definition getConnectionsCount ::
  "network \<Rightarrow> LinkedInClient \<Rightarrow> (error + CountResult) \<times> request list" where
  "getConnectionsCount net c =
     (case net (connections_request c) of
        TransportError m \<Rightarrow> (Inl (TypeError m), [connections_request c])
      | Response response \<Rightarrow>
          (if ok response then
             (case body_json response of
                None \<Rightarrow> Inl (SyntaxError ''Unexpected token'')
              | Some data \<Rightarrow>
                  Inr \<lparr>connections = (case js_or (paging_total data) (Some (JNum 0)) of
                                          Some v \<Rightarrow> v | None \<Rightarrow> JNum 0),
                       count_message = None\<rparr>)
           else
             Inr \<lparr>connections = JStr ''unavailable'',
                  count_message = Some ''Connection count may require additional permissions.''\<rparr>,
           [connections_request c]))"

section \<open>The fallback chain as a data structure\<close>

text \<open>
  The specification describes each operation as an ordered list of candidates, each a
  request descriptor with a mapper from the response to the result, consumed by one
  short-circuiting resolver. The definitions of this section follow that description, to
  be compared with the operations above, which follow the source. Two facts of the source
  enter the description: a mapper may find nothing to map (the body is not JSON, or, in
  identity resolution, the identifier is missing), and an attempt may or may not sit in a
  \<open>try\<close> block whose \<open>catch\<close> moves on to the next candidate (\<open>guarded\<close>).
\<close>

record 'a candidate =
  descriptor :: request
  mapper :: "response \<Rightarrow> 'a option"
  guarded :: bool

text \<open>
  The resolver: \<open>None\<close> when every candidate was tried and none returned, otherwise the
  value returned or the error thrown; with the requests issued, in order.
\<close>

fun resolve_chain :: "network \<Rightarrow> 'a candidate list \<Rightarrow> (error + 'a) option \<times> request list" where
  "resolve_chain net [] = (None, [])"
| "resolve_chain net (cand # rest) =
     (let (later, sent) = resolve_chain net rest;
          next = (later, descriptor cand # sent)
      in case net (descriptor cand) of
           TransportError m \<Rightarrow>
             if guarded cand then next else (Some (Inl (TypeError m)), [descriptor cand])
         | Response r \<Rightarrow>
             if ok r then
               (case mapper cand r of
                  Some v \<Rightarrow> (Some (Inr v), [descriptor cand])
                | None \<Rightarrow>
                    if guarded cand then next
                    else (Some (Inl (SyntaxError ''Unexpected token'')), [descriptor cand]))
             else next)"

declare resolve_chain.simps(2) [simp del]

text \<open>One guarded attempt: the value it returns, if it returns one.\<close>

definition attempt :: "network \<Rightarrow> 'a candidate \<Rightarrow> 'a option" where
  "attempt net cand =
     (case net (descriptor cand) of
        TransportError m \<Rightarrow> None
      | Response r \<Rightarrow> if ok r then mapper cand r else None)"

text \<open>
  A candidate fails when control moves on to the next one; it succeeds with response
  \<open>r\<close> and value \<open>v\<close> when the call completes with a 2xx status and the mapper yields
  \<open>v\<close>.
\<close>

definition fails :: "network \<Rightarrow> 'a candidate \<Rightarrow> bool" where
  "fails net cand =
     (case net (descriptor cand) of
        TransportError m \<Rightarrow> guarded cand
      | Response r \<Rightarrow> (if ok r then guarded cand \<and> mapper cand r = None else True))"

definition succeeds :: "network \<Rightarrow> 'a candidate \<Rightarrow> response \<Rightarrow> 'a \<Rightarrow> bool" where
  "succeeds net cand r v = (net (descriptor cand) = Response r \<and> ok r \<and> mapper cand r = Some v)"

text \<open>Candidates \<open>1..K\<close> fail and candidate \<open>K+1\<close> succeeds (\<open>K\<close> counts from 0 here).\<close>

definition first_success :: "network \<Rightarrow> 'a candidate list \<Rightarrow> nat \<Rightarrow> response \<Rightarrow> 'a \<Rightarrow> bool" where
  "first_success net cands K r v =
     (K < length cands \<and> list_all (fails net) (take K cands) \<and> succeeds net (cands ! K) r v)"

definition requests_upto :: "'a candidate list \<Rightarrow> nat \<Rightarrow> request list" where
  "requests_upto cands K = map descriptor (take (Suc K) cands)"

subsection \<open>The candidate lists of the operations\<close>

definition urn_mapper :: "string \<Rightarrow> response \<Rightarrow> string option" where
  "urn_mapper key r =
     (case body_json r of
        None \<Rightarrow> None
      | Some data \<Rightarrow>
          if truthy (map_of data key)
          then Some (''urn:li:person:'' @ to_string_opt (map_of data key))
          else None)"

definition identity_candidates :: "LinkedInClient \<Rightarrow> string candidate list" where
  "identity_candidates c =
     [\<lparr>descriptor = rest_me_request c, mapper = urn_mapper ''sub'', guarded = True\<rparr>,
      \<lparr>descriptor = userinfo_request c, mapper = urn_mapper ''sub'', guarded = True\<rparr>,
      \<lparr>descriptor = v2_me_request c, mapper = urn_mapper ''id'', guarded = True\<rparr>]"

definition userinfo_profile :: "response \<Rightarrow> Profile option" where
  "userinfo_profile r = map_option (map (\<lambda>(k, v). (k, Some v))) (body_json r)"

definition rest_me_profile :: "response \<Rightarrow> Profile option" where
  "rest_me_profile r =
     map_option (\<lambda>data.
       [(''sub'', js_or (map_of data ''sub'') (map_of data ''id'')),
        (''name'', js_or (map_of data ''name'') (map_of data ''localizedFirstName''))])
       (body_json r)"

definition v2_me_profile :: "response \<Rightarrow> Profile option" where
  "v2_me_profile r =
     map_option (\<lambda>data.
       [(''sub'', map_of data ''id''),
        (''given_name'', map_of data ''localizedFirstName''),
        (''family_name'', map_of data ''localizedLastName''),
        (''name'', Some (JStr (trim
           (to_string_opt (js_or (map_of data ''localizedFirstName'') (Some (JStr [])))
            @ '' ''
            @ to_string_opt (js_or (map_of data ''localizedLastName'') (Some (JStr [])))))))])
       (body_json r)"

definition profile_candidates :: "LinkedInClient \<Rightarrow> Profile candidate list" where
  "profile_candidates c =
     [\<lparr>descriptor = userinfo_request c, mapper = userinfo_profile, guarded = True\<rparr>,
      \<lparr>descriptor = rest_me_request c, mapper = rest_me_profile, guarded = True\<rparr>,
      \<lparr>descriptor = v2_me_request c, mapper = v2_me_profile, guarded = False\<rparr>]"

definition header_id_result :: "response \<Rightarrow> PostResult option" where
  "header_id_result r =
     Some \<lparr>success = True, post_id = Some (JStr (restli_id r)), message = None\<rparr>"

definition body_id_result :: "response \<Rightarrow> PostResult option" where
  "body_id_result r =
     map_option (\<lambda>data. \<lparr>success = True, post_id = map_of data ''id'', message = None\<rparr>)
       (body_json r)"

definition post_candidates :: "request \<Rightarrow> request \<Rightarrow> PostResult candidate list" where
  "post_candidates current legacy =
     [\<lparr>descriptor = current, mapper = header_id_result, guarded = False\<rparr>,
      \<lparr>descriptor = legacy, mapper = body_id_result, guarded = False\<rparr>]"

definition createPost_candidates ::
  "LinkedInClient \<Rightarrow> string \<Rightarrow> string \<Rightarrow> visibility \<Rightarrow> PostResult candidate list" where
  "createPost_candidates c urn txt vis =
     post_candidates (posts_request c (postData urn txt vis))
       (ugcPosts_request c (legacyPostData urn txt vis))"

definition createArticlePost_candidates ::
  "LinkedInClient \<Rightarrow> string \<Rightarrow> string \<Rightarrow> string \<Rightarrow> string option \<Rightarrow> string option \<Rightarrow> visibility
     \<Rightarrow> PostResult candidate list" where
  "createArticlePost_candidates c urn txt articleUrl title description vis =
     post_candidates (posts_request c (articlePostData urn txt articleUrl title description vis))
       (ugcPosts_request c (legacyArticlePostData urn txt articleUrl title description vis))"

definition deleted_result :: "response \<Rightarrow> DeleteResult option" where
  "deleted_result r = Some \<lparr>deleted = True, delete_message = None\<rparr>"

definition deletePost_candidates :: "LinkedInClient \<Rightarrow> string \<Rightarrow> DeleteResult candidate list" where
  "deletePost_candidates c postId =
     [\<lparr>descriptor = delete_rest_request c postId, mapper = deleted_result, guarded = False\<rparr>,
      \<lparr>descriptor = delete_legacy_request c postId, mapper = deleted_result, guarded = False\<rparr>]"

definition elements_result :: "response \<Rightarrow> PostsResult option" where
  "elements_result r =
     map_option (\<lambda>data.
       \<lparr>posts = (case js_or (map_of data ''elements'') (Some (JArr [])) of
                   Some v \<Rightarrow> v | None \<Rightarrow> JArr []),
        posts_message = None\<rparr>) (body_json r)"

definition getPosts_candidates :: "LinkedInClient \<Rightarrow> string \<Rightarrow> int \<Rightarrow> PostsResult candidate list" where
  "getPosts_candidates c urn n =
     [\<lparr>descriptor = getPosts_request c urn n, mapper = elements_result, guarded = False\<rparr>]"

definition total_result :: "response \<Rightarrow> CountResult option" where
  "total_result r =
     map_option (\<lambda>data.
       \<lparr>connections = (case js_or (paging_total data) (Some (JNum 0)) of
                         Some v \<Rightarrow> v | None \<Rightarrow> JNum 0),
        count_message = None\<rparr>) (body_json r)"

definition getConnectionsCount_candidates :: "LinkedInClient \<Rightarrow> CountResult candidate list" where
  "getConnectionsCount_candidates c =
     [\<lparr>descriptor = connections_request c, mapper = total_result, guarded = False\<rparr>]"

section \<open>Concrete runs\<close>

text \<open>Inputs on which the properties below are exercised.\<close>

definition fresh_listener :: listener where
  "fresh_listener = \<lparr>listening = True, code_promise = Pending\<rparr>"

definition demo_credentials :: Credentials where
  "demo_credentials = \<lparr>client_id = ''86abc'', client_secret = ''s3cret'', redirect_uri = None\<rparr>"

definition demo_redirect :: parsed_url where
  "demo_redirect =
     \<lparr>hostname = ''127.0.0.1'', port = ''3000'', pathname = ''/callback'', searchParams = []\<rparr>"

definition demo_parse_url :: "string \<Rightarrow> parsed_url option" where
  "demo_parse_url s = (if s = ''http://127.0.0.1:3000/callback'' then Some demo_redirect else None)"

text \<open>A request to the listener with the given path and query.\<close>

definition browser_request :: "string \<Rightarrow> (string \<times> string) list \<Rightarrow> incoming" where
  "browser_request path query =
     Target \<lparr>hostname = ''127.0.0.1'', port = ''3000'', pathname = path, searchParams = query\<rparr>"

definition demo_token_json :: TokenJson where
  "demo_token_json =
     \<lparr>tj_access_token = ''AQX'', tj_expires_in = 5184000, tj_scope = Some ''openid profile'',
      tj_token_type = Some ''Bearer'', tj_id_token = None\<rparr>"

definition demo_token_fetch :: "request \<Rightarrow> token_outcome" where
  "demo_token_fetch q = TokenResponse 200 [] (Some demo_token_json)"

definition stale_token :: TokenData where
  "stale_token =
     \<lparr>access_token = ''AQX'', expires_in = 5184000, expires_at = 0, scope = None,
      token_type = None, id_token = None, sub = None, name = None, email = None\<rparr>"

text \<open>A network given as a table from method and URL to the outcome; no entry, no route.\<close>

definition table_net :: "((http_method \<times> string) \<times> outcome) list \<Rightarrow> network" where
  "table_net tab q =
     (case map_of tab (meth q, url q) of
        Some out \<Rightarrow> out
      | None \<Rightarrow> TransportError ''fetch failed'')"

definition answer :: "nat \<Rightarrow> (string \<times> string) list \<Rightarrow> string \<Rightarrow> (string \<times> json) list option \<Rightarrow> outcome" where
  "answer st hs txt parsed =
     Response \<lparr>status = st, headers = hs, body_text = txt, body_json = parsed\<rparr>"

definition unauthorized :: outcome where
  "unauthorized = answer 401 [] ''Unauthorized'' None"

text \<open>Every endpoint answers 401.\<close>

definition net_401 :: network where
  "net_401 q = unauthorized"

text \<open>
  The REST \<open>me\<close> endpoint answers 200 with a body that has an \<open>id\<close> and no \<open>sub\<close>;
  the OpenID \<open>userinfo\<close> endpoint answers 200 with a \<open>sub\<close>.
\<close>

definition net_id_only :: network where
  "net_id_only =
     table_net
       [((GET, ''https://api.linkedin.com/rest/me''),
           answer 200 [] ''{id:abc}'' (Some [(''id'', JStr ''abc'')])),
        ((GET, ''https://api.linkedin.com/v2/userinfo''),
           answer 200 [] ''{sub:xyz}'' (Some [(''sub'', JStr ''xyz'')]))]"

text \<open>
  The current posts endpoint answers 201 with an \<open>x-restli-id\<close> header; the identity
  endpoints answer as in \<open>net_id_only\<close>.
\<close>

definition net_created :: network where
  "net_created =
     table_net
       [((GET, ''https://api.linkedin.com/rest/me''),
           answer 200 [] ''{id:abc}'' (Some [(''id'', JStr ''abc'')])),
        ((GET, ''https://api.linkedin.com/v2/userinfo''),
           answer 200 [] ''{sub:xyz}'' (Some [(''sub'', JStr ''xyz'')])),
        ((POST, ''https://api.linkedin.com/rest/posts''),
           answer 201 [(''x-restli-id'', ''post123'')] [] None)]"

text \<open>As \<open>net_created\<close>, without the header.\<close>

definition net_created_no_id :: network where
  "net_created_no_id =
     table_net
       [((GET, ''https://api.linkedin.com/v2/userinfo''),
           answer 200 [] ''{sub:xyz}'' (Some [(''sub'', JStr ''xyz'')])),
        ((POST, ''https://api.linkedin.com/rest/posts''), answer 201 [] [] None)]"

text \<open>
  The current posts endpoint answers 426, the legacy one 201 with the new post's id in
  the body.
\<close>

definition net_legacy_only :: network where
  "net_legacy_only =
     table_net
       [((POST, ''https://api.linkedin.com/rest/posts''), answer 426 [] ''Upgrade Required'' None),
        ((POST, ''https://api.linkedin.com/v2/ugcPosts''),
           answer 201 [] ''{id:urn:li:share:7}'' (Some [(''id'', JStr ''urn:li:share:7'')]))]"

definition known_client :: LinkedInClient where
  "known_client = \<lparr>accessToken = ''AQX'', memberUrn = Some ''urn:li:person:xyz''\<rparr>"

section \<open>Token expiry\<close>

text \<open>
  C5, as stated: \<open>isAuthenticated()\<close> is true exactly when \<open>now < expires_at\<close>. It is
  not: the expiry test is guarded by the truthiness of \<open>expires_at\<close>, so a stored record
  whose \<open>expires_at\<close> is 0 counts as authenticated at every time.
\<close>

theorem isAuthenticated_zero_expiry_counterexample:
  "isAuthenticated (Some stale_token) 1000 \<noteq> ((1000::int) < expires_at stale_token)"
  by (simp add: isAuthenticated_def loadToken_def stale_token_def)

text \<open>
  C5, amended: \<open>isAuthenticated()\<close> is false when no record is stored; for a stored
  record it is true exactly when \<open>expires_at\<close> is 0 or \<open>now < expires_at\<close>.
\<close>

theorem isAuthenticated_expiry:
  "isAuthenticated store now =
     (case store of None \<Rightarrow> False | Some T \<Rightarrow> expires_at T = 0 \<or> now < expires_at T)"
  by (auto simp: isAuthenticated_def loadToken_def split: option.splits)

section \<open>Expiry is computed once, at exchange time\<close>

lemma exchange_success:
  assumes "token_fetch (token_request code credentials redirectUri) = TokenResponse st raw (Some tj)"
    and "200 \<le> st" and "st \<le> 299"
  shows "exchangeCodeForToken token_fetch now code credentials redirectUri =
     Inr \<lparr>access_token = tj_access_token tj, expires_in = tj_expires_in tj,
          expires_at = now + tj_expires_in tj * 1000, scope = tj_scope tj,
          token_type = tj_token_type tj, id_token = tj_id_token tj,
          sub = None, name = None, email = None\<rparr>"
  using assms by (simp add: exchangeCodeForToken_def Let_def)

text \<open>
  C6: when the token endpoint answers the exchange with a 2xx status and a token body,
  \<open>exchangeCodeForToken\<close> returns a record with
  \<open>expires_at = issued_at + expires_in * 1000\<close>, where \<open>issued_at\<close> is the clock read at
  the exchange; and the flow that called it returns and stores a record with the same
  \<open>expires_in\<close> and \<open>expires_at\<close>: attaching the identity and saving the record do not
  touch them, and the readers of the token file (\<open>loadToken\<close>, \<open>isAuthenticated\<close>,
  \<open>getAccessToken\<close>, \<open>getUserInfo\<close>) return no new file.
\<close>

theorem expires_at_fixed_at_exchange:
  assumes fetch: "token_fetch (token_request code credentials (effective_redirect_uri credentials))
                   = TokenResponse st raw (Some tj)"
    and st: "200 \<le> st" "st \<le> 299"
    and parse: "parse_url (effective_redirect_uri credentials) = Some u"
    and cb: "code_promise (fst (serve (callbackPath u) fresh_listener reqs)) = Resolved code"
  shows "\<exists>T0 T.
           exchangeCodeForToken token_fetch now code credentials (effective_redirect_uri credentials)
             = Inr T0
         \<and> expires_in T0 = tj_expires_in tj
         \<and> expires_at T0 = now + expires_in T0 * 1000
         \<and> returned (authenticateInteractive path parse_url (Some credentials) state reqs
                        token_fetch net now store) = Some (Inr T)
         \<and> loadToken (store_after (authenticateInteractive path parse_url (Some credentials) state
                        reqs token_fetch net now store)) = Some T
         \<and> expires_in T = expires_in T0
         \<and> expires_at T = expires_at T0"
proof -
  let ?T0 = "\<lparr>access_token = tj_access_token tj, expires_in = tj_expires_in tj,
          expires_at = now + tj_expires_in tj * 1000, scope = tj_scope tj,
          token_type = tj_token_type tj, id_token = tj_id_token tj,
          sub = None, name = None, email = None\<rparr>"
  have ex: "exchangeCodeForToken token_fetch now code credentials (effective_redirect_uri credentials)
              = Inr ?T0"
    using fetch st by (rule exchange_success)
  obtain srv sent where sv: "serve (callbackPath u) fresh_listener reqs = (srv, sent)"
    by (cases "serve (callbackPath u) fresh_listener reqs")
  with cb have pr: "code_promise srv = Resolved code" by simp
  show ?thesis
    using ex parse sv pr
    by (simp add: authenticateInteractive_def Let_def loadToken_def saveToken_def
          fresh_listener_def)
qed

lemma demo_serve:
  "serve ''/callback'' fresh_listener [browser_request ''/callback'' [(''code'', ''c0de'')]]
     = (\<lparr>listening = False, code_promise = Resolved ''c0de''\<rparr>,
        [Some (html_reply 200 ''<html><body><h1>Authentication successful!</h1><p>You can close this window and return to the terminal.</p></body></html>'')])"
  by (simp add: fresh_listener_def browser_request_def searchParams_get_def truthy_str_def
        resolve_def string_or_null_def Let_def)

lemma demo_path: "callbackPath demo_redirect = ''/callback''"
  by (simp add: callbackPath_def demo_redirect_def)

text \<open>
  A run of C6: the browser comes back with a code, the token endpoint grants 5184000
  seconds at time 1700000000000, and the stored record expires at 1705184000000.
\<close>

theorem expires_at_fixed_at_exchange_witness:
  "\<exists>T. returned (authenticateInteractive ''credentials.json'' demo_parse_url (Some demo_credentials)
            ''k3x9'' [browser_request ''/callback'' [(''code'', ''c0de'')]] demo_token_fetch
            net_401 1700000000000 None) = Some (Inr T)
       \<and> loadToken (store_after (authenticateInteractive ''credentials.json'' demo_parse_url
            (Some demo_credentials) ''k3x9'' [browser_request ''/callback'' [(''code'', ''c0de'')]]
            demo_token_fetch net_401 1700000000000 None)) = Some T
       \<and> expires_in T = 5184000
       \<and> expires_at T = 1705184000000"
proof -
  have parse: "demo_parse_url (effective_redirect_uri demo_credentials) = Some demo_redirect"
    by (simp add: demo_parse_url_def effective_redirect_uri_def demo_credentials_def truthy_str_def)
  have cb: "code_promise (fst (serve (callbackPath demo_redirect) fresh_listener
               [browser_request ''/callback'' [(''code'', ''c0de'')]])) = Resolved ''c0de''"
    unfolding demo_path demo_serve by simp
  have fetch: "demo_token_fetch (token_request ''c0de'' demo_credentials
                 (effective_redirect_uri demo_credentials)) = TokenResponse 200 [] (Some demo_token_json)"
    by (simp add: demo_token_fetch_def)
  from expires_at_fixed_at_exchange
      [where token_fetch = demo_token_fetch and code = "''c0de''" and credentials = demo_credentials
         and st = "200" and raw = "[]" and tj = demo_token_json and parse_url = demo_parse_url
         and u = demo_redirect and reqs = "[browser_request ''/callback'' [(''code'', ''c0de'')]]"
         and now = "1700000000000" and path = "''credentials.json''" and state = "''k3x9''"
         and net = net_401 and store = None, OF fetch _ _ parse cb]
  show ?thesis by (auto simp add: demo_token_json_def)
qed

section \<open>Authorization URL\<close>

lemma scope_joined: "join '' '' SCOPES = ''openid profile email w_member_social''"
  by (simp add: SCOPES_def)

lemma form_encode_keys:
  "form_encode ''response_type'' = ''response_type''"
  "form_encode ''code'' = ''code''"
  "form_encode ''client_id'' = ''client_id''"
  "form_encode ''redirect_uri'' = ''redirect_uri''"
  "form_encode ''scope'' = ''scope''"
  "form_encode ''state'' = ''state''"
  "form_encode ''openid profile email w_member_social'' = ''openid+profile+email+w_member_social''"
  by code_simp+

text \<open>
  C7: the parameters of the authorization URL are exactly \<open>response_type\<close>,
  \<open>client_id\<close>, \<open>redirect_uri\<close>, \<open>scope\<close> and \<open>state\<close>, in this order;
  \<open>response_type\<close> is \<open>code\<close>, \<open>client_id\<close> is the credentials' client id,
  \<open>redirect_uri\<close> is the redirect URI in use, \<open>scope\<close> is the four scopes joined by
  spaces, and \<open>state\<close> is the token drawn for this run. The URL is the authorization
  endpoint followed by these parameters, form-encoded.
\<close>

theorem authorization_url_parameters:
  "map fst (authParams credentials state)
     = [''response_type'', ''client_id'', ''redirect_uri'', ''scope'', ''state'']
   \<and> map_of (authParams credentials state) ''response_type'' = Some ''code''
   \<and> map_of (authParams credentials state) ''client_id'' = Some (client_id credentials)
   \<and> map_of (authParams credentials state) ''redirect_uri''
       = Some (effective_redirect_uri credentials)
   \<and> map_of (authParams credentials state) ''scope''
       = Some ''openid profile email w_member_social''
   \<and> map_of (authParams credentials state) ''state'' = Some state
   \<and> authUrl credentials state
       = LINKEDIN_AUTH_URL @ ''?response_type=code&client_id='' @ form_encode (client_id credentials)
         @ ''&redirect_uri='' @ form_encode (effective_redirect_uri credentials)
         @ ''&scope=openid+profile+email+w_member_social&state='' @ form_encode state"
  by (simp add: authParams_def authUrl_def searchParams_toString_def scope_joined form_encode_keys)

section \<open>Callback listener\<close>

text \<open>
  C2 says that the listener is closed on every exit path of the callback handling. The
  handler calls \<open>server.close()\<close> only where a code arrived. On a callback with
  \<open>error=access_denied\<close> it replies 400 and rejects the flow with
  \<open>OAuth error: access_denied\<close>, and on a callback with neither parameter it replies 400
  and rejects with \<open>No authorization code received\<close>; in both the server keeps
  listening. The flow that awaited the code fails with that error and leaves the listener
  open.
\<close>

theorem denied_callback_leaves_listener_open:
  "handle_request ''/callback'' fresh_listener
      (browser_request ''/callback'' [(''error'', ''access_denied'')])
     = (\<lparr>listening = True, code_promise = Rejected (Error ''OAuth error: access_denied'')\<rparr>,
        Some (html_reply 400
          ''<html><body><h1>Error</h1><p>access_denied: null</p></body></html>''))
   \<and> handle_request ''/callback'' fresh_listener (browser_request ''/callback'' [])
     = (\<lparr>listening = True, code_promise = Rejected (Error ''No authorization code received'')\<rparr>,
        Some (html_reply 400
          ''<html><body><h1>Error</h1><p>No authorization code received.</p></body></html>''))
   \<and> fst (handle_request ''/callback'' fresh_listener
            (browser_request ''/callback'' [(''code'', ''c0de'')]))
     = \<lparr>listening = False, code_promise = Resolved ''c0de''\<rparr>
   \<and> returned (authenticateInteractive ''credentials.json'' demo_parse_url (Some demo_credentials)
        ''k3x9'' [browser_request ''/callback'' [(''error'', ''access_denied'')]] demo_token_fetch
        net_401 1700000000000 None)
     = Some (Inl (Error ''OAuth error: access_denied''))
   \<and> server (authenticateInteractive ''credentials.json'' demo_parse_url (Some demo_credentials)
        ''k3x9'' [browser_request ''/callback'' [(''error'', ''access_denied'')]] demo_token_fetch
        net_401 1700000000000 None)
     = Some \<lparr>listening = True, code_promise = Rejected (Error ''OAuth error: access_denied'')\<rparr>"
  by (simp add: fresh_listener_def browser_request_def searchParams_get_def truthy_str_def
        resolve_def reject_def string_or_null_def Let_def authenticateInteractive_def
        demo_parse_url_def effective_redirect_uri_def demo_credentials_def callbackPath_def
        demo_redirect_def)

text \<open>
  C10, as stated: a request whose path is not the callback path gets no reply and leaves
  the pending flow as it was, and only a request on the callback path can settle the flow.
  A request whose target is not a URL against the listener's base (the request line
  \<open>GET // HTTP/1.1\<close> is one) is not a request on the callback path, yet the handler's
  \<open>catch\<close> rejects the pending flow for it.
\<close>

theorem unparsable_target_counterexample:
  "handle_request ''/callback'' fresh_listener BadTarget
     = (\<lparr>listening = True, code_promise = Rejected (TypeError ''Invalid URL'')\<rparr>, None)
   \<and> code_promise (fst (handle_request ''/callback'' fresh_listener BadTarget))
       \<noteq> code_promise fresh_listener"
  by (simp add: fresh_listener_def reject_def)

text \<open>
  C10, amended: a request whose target parses to a path other than the callback path gets
  no reply and leaves the listener and the pending flow unchanged; a request whose target
  does not parse gets no reply and rejects the flow if it is still pending; and a request
  that changes the state of the flow is one of these two kinds: unparsable, or on the
  callback path.
\<close>

theorem non_matching_request_frame:
  "(pathname u \<noteq> cbPath \<longrightarrow> handle_request cbPath srv (Target u) = (srv, None))
   \<and> handle_request cbPath srv BadTarget
       = (srv\<lparr>code_promise := reject (TypeError ''Invalid URL'') (code_promise srv)\<rparr>, None)
   \<and> (code_promise (fst (handle_request cbPath srv r)) \<noteq> code_promise srv
        \<longrightarrow> r = BadTarget \<or> (\<exists>v. r = Target v \<and> pathname v = cbPath))"
  by (cases r) auto

text \<open>A run of C10 as amended: a request for \<open>/favicon.ico\<close> while the flow is pending.\<close>

theorem non_matching_request_frame_witness:
  "handle_request ''/callback'' fresh_listener (browser_request ''/favicon.ico'' [])
     = (fresh_listener, None)
   \<and> handle_request ''/callback'' fresh_listener BadTarget
     = (fresh_listener\<lparr>code_promise := reject (TypeError ''Invalid URL'') (code_promise fresh_listener)\<rparr>, None)"
  using non_matching_request_frame
    [of "\<lparr>hostname = ''127.0.0.1'', port = ''3000'', pathname = ''/favicon.ico'', searchParams = []\<rparr>"
        "''/callback''" fresh_listener BadTarget]
  by (simp add: browser_request_def)

section \<open>Creating posts\<close>

lemma ok_or_201: "(ok r \<or> status r = 201) = ok r"
  by (auto simp: ok_def)

lemma ok_or_204: "(ok r \<or> status r = 204) = ok r"
  by (auto simp: ok_def)

lemmas send_post_simp = send_post_def [unfolded ok_or_201]

lemmas deletePost_simp = deletePost_def [unfolded ok_or_204]

lemma send_post_current:
  "net current = Response r \<Longrightarrow> ok r \<Longrightarrow>
   send_post net current legacy what =
     (Inr \<lparr>success = True, post_id = Some (JStr (restli_id r)), message = None\<rparr>, [current])"
  by (simp add: send_post_simp)

lemma send_post_exhausted:
  "net current = Response r1 \<Longrightarrow> \<not> ok r1 \<Longrightarrow> net legacy = Response r2 \<Longrightarrow> \<not> ok r2 \<Longrightarrow>
   send_post net current legacy what =
     (Inl (Error (''Failed to create '' @ what @ '': '' @ show_nat (status r2) @ '' - ''
                  @ body_text r2)),
      [current, legacy])"
  by (simp add: send_post_simp)

lemma resolveMemberUrn_urls:
  "set (map url (snd (snd (resolveMemberUrn net c))))
     \<subseteq> {LINKEDIN_API_URL @ ''/rest/me'', LINKEDIN_API_URL @ ''/v2/userinfo'',
         LINKEDIN_API_URL @ ''/v2/me''}"
  by (simp add: resolveMemberUrn_def rest_me_request_def userinfo_request_def v2_me_request_def
        split: option.splits)

lemma getMemberUrn_urls:
  "getMemberUrn net c = (res, c', issued) \<Longrightarrow>
   LINKEDIN_API_URL @ ''/v2/ugcPosts'' \<notin> set (map url issued)"
proof -
  assume a: "getMemberUrn net c = (res, c', issued)"
  have "set (map url (snd (snd (getMemberUrn net c))))
     \<subseteq> {LINKEDIN_API_URL @ ''/rest/me'', LINKEDIN_API_URL @ ''/v2/userinfo'',
         LINKEDIN_API_URL @ ''/v2/me''}"
    using resolveMemberUrn_urls [of net c]
    by (simp add: getMemberUrn_def split: option.splits)
  with a show ?thesis by auto
qed

text \<open>
  C8: \<open>createArticlePost("hi", "https://a.com", "T", "D", "PUBLIC")\<close>, once the member
  URN is known (the request to the posts endpoint is built from it), with the current
  posts endpoint answering 201 and the header \<open>x-restli-id: post123\<close>, returns
  \<open>{success: true, id: "post123"}\<close>; the requests it issued are those of identity
  resolution and the one to the posts endpoint, none to the legacy endpoint.
\<close>

theorem createArticlePost_example:
  assumes id: "getMemberUrn net c = (Inr urn, c', issued)"
    and resp: "net (posts_request c'
                 (articlePostData urn ''hi'' ''https://a.com'' (Some ''T'') (Some ''D'') PUBLIC))
               = Response r"
    and st: "status r = 201"
    and hdr: "headers_get r ''x-restli-id'' = Some ''post123''"
  shows "createArticlePost net c ''hi'' ''https://a.com'' (Some ''T'') (Some ''D'') PUBLIC
           = (Inr \<lparr>success = True, post_id = Some (JStr ''post123''), message = None\<rparr>, c',
              issued @ [posts_request c'
                (articlePostData urn ''hi'' ''https://a.com'' (Some ''T'') (Some ''D'') PUBLIC)])
         \<and> LINKEDIN_API_URL @ ''/v2/ugcPosts''
             \<notin> set (map url (snd (snd (createArticlePost net c ''hi'' ''https://a.com''
                                          (Some ''T'') (Some ''D'') PUBLIC))))"
proof -
  have okr: "ok r" using st by (simp add: ok_def)
  have rid: "restli_id r = ''post123''" using hdr by (simp add: restli_id_def)
  have run: "createArticlePost net c ''hi'' ''https://a.com'' (Some ''T'') (Some ''D'') PUBLIC
           = (Inr \<lparr>success = True, post_id = Some (JStr ''post123''), message = None\<rparr>, c',
              issued @ [posts_request c'
                (articlePostData urn ''hi'' ''https://a.com'' (Some ''T'') (Some ''D'') PUBLIC)])"
    using id resp okr rid by (simp add: createArticlePost_def send_post_current)
  have "LINKEDIN_API_URL @ ''/v2/ugcPosts'' \<notin> set (map url issued)"
    using id by (rule getMemberUrn_urls)
  with run show ?thesis by (simp add: posts_request_def)
qed

lemma created_identity:
  "getMemberUrn net_created (new_client ''AQX'')
     = (Inr ''urn:li:person:xyz'', \<lparr>accessToken = ''AQX'', memberUrn = Some ''urn:li:person:xyz''\<rparr>,
        [rest_me_request (new_client ''AQX''), userinfo_request (new_client ''AQX'')])"
  by code_simp

lemma created_answer:
  "net_created (posts_request \<lparr>accessToken = ''AQX'', memberUrn = Some ''urn:li:person:xyz''\<rparr>
       (articlePostData ''urn:li:person:xyz'' ''hi'' ''https://a.com'' (Some ''T'') (Some ''D'') PUBLIC))
     = Response \<lparr>status = 201, headers = [(''x-restli-id'', ''post123'')], body_text = [],
                 body_json = None\<rparr>"
  by code_simp

text \<open>
  A run of C8: a new client, whose identity the \<open>userinfo\<close> endpoint resolves, then the
  post.
\<close>

theorem createArticlePost_example_witness:
  "createArticlePost net_created (new_client ''AQX'') ''hi'' ''https://a.com'' (Some ''T'') (Some ''D'')
      PUBLIC
     = (Inr \<lparr>success = True, post_id = Some (JStr ''post123''), message = None\<rparr>,
        \<lparr>accessToken = ''AQX'', memberUrn = Some ''urn:li:person:xyz''\<rparr>,
        [rest_me_request (new_client ''AQX''), userinfo_request (new_client ''AQX''),
         posts_request \<lparr>accessToken = ''AQX'', memberUrn = Some ''urn:li:person:xyz''\<rparr>
           (articlePostData ''urn:li:person:xyz'' ''hi'' ''https://a.com'' (Some ''T'') (Some ''D'')
              PUBLIC)])"
  using createArticlePost_example
    [where net = net_created and c = "new_client ''AQX''" and urn = "''urn:li:person:xyz''"
       and c' = "\<lparr>accessToken = ''AQX'', memberUrn = Some ''urn:li:person:xyz''\<rparr>"
       and r = "\<lparr>status = 201, headers = [(''x-restli-id'', ''post123'')], body_text = [],
                 body_json = None\<rparr>",
     OF created_identity created_answer]
  by (simp add: headers_get_def)

text \<open>
  C9: when the current posts endpoint answers \<open>createPost\<close> or \<open>createArticlePost\<close>
  with a 2xx status and no \<open>x-restli-id\<close> header, the call returns success with the id
  \<open>"created"\<close>.
\<close>

theorem missing_restli_id_gives_created:
  assumes id: "getMemberUrn net c = (Inr urn, c', issued)"
  shows "(net (posts_request c' (postData urn body vis)) = Response r \<and> ok r
            \<and> headers_get r ''x-restli-id'' = None
          \<longrightarrow> fst (createPost net c body vis)
                = Inr \<lparr>success = True, post_id = Some (JStr ''created''), message = None\<rparr>)
       \<and> (net (posts_request c' (articlePostData urn body articleUrl title description vis))
              = Response r' \<and> ok r' \<and> headers_get r' ''x-restli-id'' = None
          \<longrightarrow> fst (createArticlePost net c body articleUrl title description vis)
                = Inr \<lparr>success = True, post_id = Some (JStr ''created''), message = None\<rparr>)"
  using id
  by (auto simp add: createPost_def createArticlePost_def send_post_current restli_id_def)

lemma no_id_identity:
  "getMemberUrn net_created_no_id (new_client ''AQX'')
     = (Inr ''urn:li:person:xyz'', \<lparr>accessToken = ''AQX'', memberUrn = Some ''urn:li:person:xyz''\<rparr>,
        [rest_me_request (new_client ''AQX''), userinfo_request (new_client ''AQX'')])"
  by code_simp

lemma no_id_answer:
  "net_created_no_id (posts_request \<lparr>accessToken = ''AQX'', memberUrn = Some ''urn:li:person:xyz''\<rparr>
       (postData ''urn:li:person:xyz'' ''hello'' CONNECTIONS))
     = Response \<lparr>status = 201, headers = [], body_text = [], body_json = None\<rparr>"
  by code_simp

text \<open>A run of C9: a text post answered 201 without the header.\<close>

theorem missing_restli_id_gives_created_witness:
  "fst (createPost net_created_no_id (new_client ''AQX'') ''hello'' CONNECTIONS)
     = Inr \<lparr>success = True, post_id = Some (JStr ''created''), message = None\<rparr>"
  using missing_restli_id_gives_created
    [where net = net_created_no_id and c = "new_client ''AQX''" and urn = "''urn:li:person:xyz''"
       and c' = "\<lparr>accessToken = ''AQX'', memberUrn = Some ''urn:li:person:xyz''\<rparr>"
       and body = "''hello''" and vis = CONNECTIONS
       and r = "\<lparr>status = 201, headers = [], body_text = [], body_json = None\<rparr>",
     OF no_id_identity]
    no_id_answer
  by (simp add: headers_get_def ok_def)

section \<open>When every candidate fails\<close>

text \<open>
  C3, as stated: a mutating operation whose candidates all fail raises an error carrying
  the last candidate's status code and response body. \<open>deletePost\<close> does not raise: with
  both endpoints answering 401 it returns \<open>{success: false, message: "Failed to delete
  post: 401"}\<close>, and the message does not carry the body.
\<close>

theorem deletePost_exhausted_counterexample:
  "deletePost net_401 known_client ''post123''
     = (Inr \<lparr>deleted = False, delete_message = Some ''Failed to delete post: 401''\<rparr>,
        [delete_rest_request known_client ''post123'',
         delete_legacy_request known_client ''post123''])"
  by code_simp

text \<open>
  C3, amended: when the member URN is resolved and both posts endpoints answer with a
  status outside 2xx, \<open>createPost\<close> and \<open>createArticlePost\<close> raise an error whose
  message carries the status code and the response body of the last candidate, the legacy
  endpoint; when both delete endpoints answer with a status outside 2xx, \<open>deletePost\<close>
  returns \<open>success: false\<close> with a message carrying the last candidate's status code,
  and does not raise.
\<close>

theorem mutating_operations_exhausted:
  "(getMemberUrn net c = (Inr urn, c', issued)
      \<and> net (posts_request c' (postData urn body vis)) = Response r1 \<and> \<not> ok r1
      \<and> net (ugcPosts_request c' (legacyPostData urn body vis)) = Response r2 \<and> \<not> ok r2
    \<longrightarrow> fst (createPost net c body vis)
          = Inl (Error (''Failed to create post: '' @ show_nat (status r2) @ '' - ''
                        @ body_text r2)))
   \<and> (getMemberUrn net c = (Inr urn, c', issued)
      \<and> net (posts_request c' (articlePostData urn body articleUrl title description vis))
          = Response r1 \<and> \<not> ok r1
      \<and> net (ugcPosts_request c' (legacyArticlePostData urn body articleUrl title description vis))
          = Response r2 \<and> \<not> ok r2
    \<longrightarrow> fst (createArticlePost net c body articleUrl title description vis)
          = Inl (Error (''Failed to create article post: '' @ show_nat (status r2) @ '' - ''
                        @ body_text r2)))
   \<and> (net (delete_rest_request c postId) = Response d1 \<and> \<not> ok d1
      \<and> net (delete_legacy_request c postId) = Response d2 \<and> \<not> ok d2
    \<longrightarrow> deletePost net c postId
          = (Inr \<lparr>deleted = False,
                  delete_message = Some (''Failed to delete post: '' @ show_nat (status d2))\<rparr>,
             [delete_rest_request c postId, delete_legacy_request c postId]))"
  by (auto simp add: createPost_def createArticlePost_def send_post_exhausted deletePost_simp)

lemma known_identity: "getMemberUrn net_401 known_client = (Inr ''urn:li:person:xyz'', known_client, [])"
  by code_simp

lemma answers_401: "net_401 q = Response \<lparr>status = 401, headers = [], body_text = ''Unauthorized'', body_json = None\<rparr>"
  by (simp add: net_401_def unauthorized_def answer_def)

text \<open>A run of C3 as amended: every endpoint answers 401 \<open>Unauthorized\<close>.\<close>

theorem mutating_operations_exhausted_witness:
  "fst (createPost net_401 known_client ''hi'' PUBLIC)
     = Inl (Error ''Failed to create post: 401 - Unauthorized'')
   \<and> fst (createArticlePost net_401 known_client ''hi'' ''https://a.com'' None None PUBLIC)
     = Inl (Error ''Failed to create article post: 401 - Unauthorized'')"
proof -
  have s: "show_nat 401 = ''401''" by code_simp
  show ?thesis
    using mutating_operations_exhausted
      [where net = net_401 and c = known_client and urn = "''urn:li:person:xyz''"
         and c' = known_client and issued = "[]" and body = "''hi''" and vis = PUBLIC
         and articleUrl = "''https://a.com''" and title = None and description = None
         and ?r1.0 = "\<lparr>status = 401, headers = [], body_text = ''Unauthorized'', body_json = None\<rparr>"
         and ?r2.0 = "\<lparr>status = 401, headers = [], body_text = ''Unauthorized'', body_json = None\<rparr>"]
    by (simp add: known_identity answers_401 ok_def s)
qed

text \<open>
  C1, as stated: a read-only operation whose candidates all fail returns a soft-failure
  result and does not raise. Profile fetch raises: with every endpoint answering 401 it
  throws \<open>Failed to fetch profile\<close>.
\<close>

theorem getProfile_exhausted_counterexample:
  "getProfile net_401 (new_client ''AQX'')
     = (Inl (Error ''Failed to fetch profile''),
        [userinfo_request (new_client ''AQX''), rest_me_request (new_client ''AQX''),
         v2_me_request (new_client ''AQX'')])"
  by code_simp

text \<open>
  C1, amended: when its endpoint answers with a status outside 2xx, connection count
  returns \<open>count: "unavailable"\<close> with an explanatory message, and list posts, once the
  member URN is resolved, returns no posts with an explanatory message; neither raises.
  Profile fetch, when its first two candidates fail and the last answers with a status
  outside 2xx, raises \<open>Failed to fetch profile\<close>; identity resolution, when none of its
  three candidates yields an identifier, raises \<open>Unable to determine member URN\<close>.
\<close>

theorem read_operations_exhausted:
  "(net (connections_request c) = Response r \<and> \<not> ok r
    \<longrightarrow> getConnectionsCount net c
          = (Inr \<lparr>connections = JStr ''unavailable'',
                  count_message = Some ''Connection count may require additional permissions.''\<rparr>,
             [connections_request c]))
   \<and> (getMemberUrn net c = (Inr urn, c', issued)
        \<and> net (getPosts_request c' urn n) = Response r' \<and> \<not> ok r'
    \<longrightarrow> getPosts net c n
          = (Inr \<lparr>posts = JArr [],
                  posts_message = Some ''Unable to fetch posts. This may require additional LinkedIn API permissions.''\<rparr>,
             c', issued @ [getPosts_request c' urn n]))
   \<and> (guarded_json (net (userinfo_request c)) = None
        \<and> guarded_json (net (rest_me_request c)) = None
        \<and> net (v2_me_request c) = Response r3 \<and> \<not> ok r3
    \<longrightarrow> getProfile net c
          = (Inl (Error ''Failed to fetch profile''),
             [userinfo_request c, rest_me_request c, v2_me_request c]))
   \<and> ((memberUrn c = None \<or> memberUrn c = Some [])
        \<and> urn_of (net (rest_me_request c)) ''sub'' = None
        \<and> urn_of (net (userinfo_request c)) ''sub'' = None
        \<and> urn_of (net (v2_me_request c)) ''id'' = None
    \<longrightarrow> getMemberUrn net c
          = (Inl urn_unresolved, c, [rest_me_request c, userinfo_request c, v2_me_request c]))"
  by (auto simp add: getConnectionsCount_def getPosts_def getProfile_def getMemberUrn_def
        resolveMemberUrn_def)

text \<open>A run of C1 as amended: every endpoint answers 401.\<close>

theorem read_operations_exhausted_witness:
  "getConnectionsCount net_401 known_client
     = (Inr \<lparr>connections = JStr ''unavailable'',
             count_message = Some ''Connection count may require additional permissions.''\<rparr>,
        [connections_request known_client])
   \<and> getPosts net_401 known_client 10
     = (Inr \<lparr>posts = JArr [],
             posts_message = Some ''Unable to fetch posts. This may require additional LinkedIn API permissions.''\<rparr>,
        known_client, [getPosts_request known_client ''urn:li:person:xyz'' 10])
   \<and> fst (getMemberUrn net_401 (new_client ''AQX'')) = Inl urn_unresolved"
  using read_operations_exhausted
      [where net = net_401 and c = known_client and urn = "''urn:li:person:xyz''"
         and c' = known_client and issued = "[]" and n = 10
         and r = "\<lparr>status = 401, headers = [], body_text = ''Unauthorized'', body_json = None\<rparr>"
         and r' = "\<lparr>status = 401, headers = [], body_text = ''Unauthorized'', body_json = None\<rparr>"]
    read_operations_exhausted
      [where net = net_401 and c = "new_client ''AQX''"]
  by (simp add: known_identity answers_401 ok_def new_client_def urn_of_def guarded_json_def)

section \<open>The operations as fallback chains\<close>

lemma resolve_chain_Cons:
  "resolve_chain net (cand # rest) =
     (case net (descriptor cand) of
        TransportError m \<Rightarrow>
          if guarded cand
          then (fst (resolve_chain net rest), descriptor cand # snd (resolve_chain net rest))
          else (Some (Inl (TypeError m)), [descriptor cand])
      | Response r \<Rightarrow>
          if ok r then
            (case mapper cand r of
               Some v \<Rightarrow> (Some (Inr v), [descriptor cand])
             | None \<Rightarrow>
                 if guarded cand
                 then (fst (resolve_chain net rest), descriptor cand # snd (resolve_chain net rest))
                 else (Some (Inl (SyntaxError ''Unexpected token'')), [descriptor cand]))
          else (fst (resolve_chain net rest), descriptor cand # snd (resolve_chain net rest)))"
  by (simp add: resolve_chain.simps(2) Let_def split: prod.splits outcome.splits option.splits)

lemma resolve_chain_fails:
  "fails net cand \<Longrightarrow>
   resolve_chain net (cand # rest) =
     (fst (resolve_chain net rest), descriptor cand # snd (resolve_chain net rest))"
  by (simp add: fails_def resolve_chain_Cons split: outcome.splits option.splits if_splits)

lemma resolve_chain_succeeds:
  "succeeds net cand r v \<Longrightarrow> resolve_chain net (cand # rest) = (Some (Inr v), [descriptor cand])"
  by (simp add: succeeds_def resolve_chain_Cons)

lemma resolve_chain_first_success:
  "first_success net cands K r v \<Longrightarrow>
   resolve_chain net cands = (Some (Inr v), requests_upto cands K)"
proof (induction cands arbitrary: K)
  case Nil
  then show ?case by (simp add: first_success_def)
next
  case (Cons cand rest)
  show ?case
  proof (cases K)
    case 0
    with Cons.prems show ?thesis
      by (simp add: first_success_def requests_upto_def resolve_chain_succeeds)
  next
    case (Suc J)
    with Cons.prems have f: "fails net cand" and fs: "first_success net rest J r v"
      by (simp_all add: first_success_def)
    from Cons.IH [OF fs] f Suc show ?thesis
      by (simp add: resolve_chain_fails requests_upto_def)
  qed
qed

lemma urn_of_alt:
  "urn_of out key =
     (case out of TransportError m \<Rightarrow> None
      | Response r \<Rightarrow> if ok r then urn_mapper key r else None)"
  by (simp add: urn_of_def guarded_json_def urn_mapper_def split: outcome.splits option.splits)

lemma resolve_chain_guarded:
  "guarded cand \<Longrightarrow>
   resolve_chain net (cand # rest) =
     (case attempt net cand of
        Some v \<Rightarrow> (Some (Inr v), [descriptor cand])
      | None \<Rightarrow> (fst (resolve_chain net rest), descriptor cand # snd (resolve_chain net rest)))"
  by (simp add: resolve_chain_Cons attempt_def split: outcome.splits option.splits)

lemma urn_of_attempt:
  "urn_of (net q) key = attempt net \<lparr>descriptor = q, mapper = urn_mapper key, guarded = True\<rparr>"
  by (simp add: urn_of_alt attempt_def split: outcome.splits)

lemma resolveMemberUrn_chain:
  "resolve_chain net (identity_candidates c) = (Some (Inr urn), sent) \<Longrightarrow>
   resolveMemberUrn net c = (Inr urn, c\<lparr>memberUrn := Some urn\<rparr>, sent)"
  unfolding resolveMemberUrn_def identity_candidates_def urn_of_attempt
  by (simp add: resolve_chain_guarded split: option.splits)

lemma attempt_body_mapper:
  assumes "\<And>r. m r = map_option f (body_json r)"
  shows "attempt net \<lparr>descriptor = q, mapper = m, guarded = g\<rparr>
           = map_option f (guarded_json (net q))"
  by (simp add: guarded_json_def attempt_def assms split: outcome.splits)

lemmas attempt_profile =
  attempt_body_mapper [of userinfo_profile, OF userinfo_profile_def]
  attempt_body_mapper [of rest_me_profile, OF rest_me_profile_def]

lemma resolve_chain_last_unguarded:
  "\<not> guarded cand \<Longrightarrow>
   resolve_chain net [cand] =
     (case net (descriptor cand) of
        TransportError m \<Rightarrow> (Some (Inl (TypeError m)), [descriptor cand])
      | Response r \<Rightarrow>
          if ok r then
            (case mapper cand r of
               Some v \<Rightarrow> (Some (Inr v), [descriptor cand])
             | None \<Rightarrow> (Some (Inl (SyntaxError ''Unexpected token'')), [descriptor cand]))
          else (None, [descriptor cand]))"
  by (simp add: resolve_chain_Cons split: outcome.splits option.splits)

lemma getProfile_chain:
  "resolve_chain net (profile_candidates c) = (Some res, sent) \<Longrightarrow> getProfile net c = (res, sent)"
proof -
  assume a: "resolve_chain net (profile_candidates c) = (Some res, sent)"
  show ?thesis
  proof (cases "guarded_json (net (userinfo_request c))")
    case (Some d1)
    with a show ?thesis
      by (auto simp add: profile_candidates_def resolve_chain_guarded attempt_profile getProfile_def)
  next
    case n1: None
    show ?thesis
    proof (cases "guarded_json (net (rest_me_request c))")
      case (Some d2)
      with a n1 show ?thesis
        by (auto simp add: profile_candidates_def resolve_chain_guarded attempt_profile getProfile_def)
    next
      case n2: None
      let ?last = "\<lparr>descriptor = v2_me_request c, mapper = v2_me_profile, guarded = False\<rparr>"
      have single: "snd (resolve_chain net [?last]) = [v2_me_request c]"
        by (simp add: resolve_chain_last_unguarded split: outcome.splits option.splits)
      from a n1 n2 have "fst (resolve_chain net [?last]) = Some res"
        and "sent = [userinfo_request c, rest_me_request c, v2_me_request c]"
        by (auto simp add: profile_candidates_def resolve_chain_guarded attempt_profile single)
      with n1 n2 show ?thesis
        by (auto simp add: resolve_chain_last_unguarded getProfile_def v2_me_profile_def
              split: outcome.splits if_splits option.splits)
    qed
  qed
qed

lemma send_post_chain:
  "resolve_chain net (post_candidates current legacy) = (Some res, sent) \<Longrightarrow>
   send_post net current legacy what = (res, sent)"
proof -
  assume a: "resolve_chain net (post_candidates current legacy) = (Some res, sent)"
  show ?thesis
  proof (cases "net current")
    case (TransportError m)
    with a show ?thesis
      by (simp add: post_candidates_def resolve_chain_Cons send_post_simp)
  next
    case cur: (Response r)
    show ?thesis
    proof (cases "ok r")
      case True
      with a cur show ?thesis
        by (simp add: post_candidates_def resolve_chain_Cons send_post_simp header_id_result_def)
    next
      case notok: False
      show ?thesis
      proof (cases "net legacy")
        case (TransportError m)
        with a cur notok show ?thesis
          by (auto simp add: post_candidates_def resolve_chain_Cons send_post_simp)
      next
        case leg: (Response r2)
        show ?thesis
        proof (cases "ok r2")
          case True
          with a cur notok leg show ?thesis
            by (cases "body_json r2")
               (auto simp add: post_candidates_def resolve_chain_Cons send_post_simp
                  body_id_result_def)
        next
          case False
          with a cur notok leg show ?thesis
            by (simp add: post_candidates_def resolve_chain_Cons)
        qed
      qed
    qed
  qed
qed

lemma deletePost_chain:
  "resolve_chain net (deletePost_candidates c postId) = (Some res, sent) \<Longrightarrow>
   deletePost net c postId = (res, sent)"
proof -
  assume a: "resolve_chain net (deletePost_candidates c postId) = (Some res, sent)"
  show ?thesis
  proof (cases "net (delete_rest_request c postId)")
    case (TransportError m)
    with a show ?thesis
      by (simp add: deletePost_candidates_def resolve_chain_Cons deletePost_simp)
  next
    case cur: (Response r)
    show ?thesis
    proof (cases "ok r")
      case True
      with a cur show ?thesis
        by (simp add: deletePost_candidates_def resolve_chain_Cons deletePost_simp deleted_result_def)
    next
      case notok: False
      show ?thesis
      proof (cases "net (delete_legacy_request c postId)")
        case (TransportError m)
        with a cur notok show ?thesis
          by (auto simp add: deletePost_candidates_def resolve_chain_Cons deletePost_simp)
      next
        case leg: (Response r2)
        with a cur notok show ?thesis
          by (cases "ok r2")
             (auto simp add: deletePost_candidates_def resolve_chain_Cons deletePost_simp
                deleted_result_def)
      qed
    qed
  qed
qed

lemma getConnectionsCount_chain:
  "resolve_chain net (getConnectionsCount_candidates c) = (Some res, sent) \<Longrightarrow>
   getConnectionsCount net c = (res, sent)"
  by (auto simp add: getConnectionsCount_candidates_def resolve_chain_last_unguarded
        getConnectionsCount_def total_result_def
        split: outcome.splits if_splits option.splits)

lemma getPosts_chain:
  "getMemberUrn net c = (Inr urn, c', issued) \<Longrightarrow>
   resolve_chain net (getPosts_candidates c' urn n) = (Some res, sent) \<Longrightarrow>
   getPosts net c n = (res, c', issued @ sent)"
  by (auto simp add: getPosts_candidates_def resolve_chain_last_unguarded
        getPosts_def elements_result_def
        split: outcome.splits if_splits option.splits)

lemma createPost_chain:
  "getMemberUrn net c = (Inr urn, c', issued) \<Longrightarrow>
   resolve_chain net (createPost_candidates c' urn body vis) = (Some res, sent) \<Longrightarrow>
   createPost net c body vis = (res, c', issued @ sent)"
  by (simp add: createPost_def createPost_candidates_def send_post_chain)

lemma createArticlePost_chain:
  "getMemberUrn net c = (Inr urn, c', issued) \<Longrightarrow>
   resolve_chain net (createArticlePost_candidates c' urn body articleUrl title description vis)
     = (Some res, sent) \<Longrightarrow>
   createArticlePost net c body articleUrl title description vis = (res, c', issued @ sent)"
  by (simp add: createArticlePost_def createArticlePost_candidates_def send_post_chain)

lemma getMemberUrn_chain:
  "memberUrn c = None \<or> memberUrn c = Some [] \<Longrightarrow>
   resolve_chain net (identity_candidates c) = (Some (Inr urn), sent) \<Longrightarrow>
   getMemberUrn net c = (Inr urn, c\<lparr>memberUrn := Some urn\<rparr>, sent)"
  by (auto simp add: getMemberUrn_def resolveMemberUrn_chain)

text \<open>
  C4, as stated: when candidates \<open>1..K\<close> fail and candidate \<open>K+1\<close> completes with a
  2xx status, the result is candidate \<open>K+1\<close>'s and no later candidate is asked. In
  identity resolution the REST \<open>me\<close> endpoint, the first candidate, answers 200 with a
  body that has no \<open>sub\<close>; the call goes on to the second candidate and returns what
  that one yields.
\<close>

theorem getMemberUrn_2xx_without_sub_counterexample:
  "net_id_only (rest_me_request (new_client ''AQX''))
     = Response \<lparr>status = 200, headers = [], body_text = ''{id:abc}'',
                 body_json = Some [(''id'', JStr ''abc'')]\<rparr>
   \<and> getMemberUrn net_id_only (new_client ''AQX'')
     = (Inr ''urn:li:person:xyz'', \<lparr>accessToken = ''AQX'', memberUrn = Some ''urn:li:person:xyz''\<rparr>,
        [rest_me_request (new_client ''AQX''), userinfo_request (new_client ''AQX'')])"
  by code_simp

text \<open>
  C4, amended: for every operation and its candidate list, when candidates \<open>1..K\<close>
  fail and candidate \<open>K+1\<close> succeeds, the operation returns candidate \<open>K+1\<close>'s mapper
  applied to its response and the requests issued are those of candidates \<open>1..K+1\<close>
  (after those of identity resolution, where the operation starts with it). Here a
  candidate succeeds when it completes with a 2xx status and its mapper yields a value
  (the body parses where the mapper reads it; in identity resolution the identifier is
  present), and it fails when it answers with a status outside 2xx or, for the guarded
  attempts of identity resolution and the first two of profile fetch, on a transport
  error or a 2xx response the mapper can make nothing of.
\<close>

theorem fallback_chain_first_success:
  "(first_success net (identity_candidates c) K r urn
      \<and> (memberUrn c = None \<or> memberUrn c = Some [])
    \<longrightarrow> getMemberUrn net c
          = (Inr urn, c\<lparr>memberUrn := Some urn\<rparr>, requests_upto (identity_candidates c) K))
   \<and> (first_success net (profile_candidates c) K r profile
    \<longrightarrow> getProfile net c = (Inr profile, requests_upto (profile_candidates c) K))
   \<and> (getMemberUrn net c = (Inr u, c', issued)
        \<and> first_success net (createPost_candidates c' u body vis) K r res
    \<longrightarrow> createPost net c body vis
          = (Inr res, c', issued @ requests_upto (createPost_candidates c' u body vis) K))
   \<and> (getMemberUrn net c = (Inr u, c', issued)
        \<and> first_success net
             (createArticlePost_candidates c' u body articleUrl title description vis) K r res
    \<longrightarrow> createArticlePost net c body articleUrl title description vis
          = (Inr res, c',
             issued @ requests_upto
               (createArticlePost_candidates c' u body articleUrl title description vis) K))
   \<and> (first_success net (deletePost_candidates c postId) K r gone
    \<longrightarrow> deletePost net c postId = (Inr gone, requests_upto (deletePost_candidates c postId) K))
   \<and> (getMemberUrn net c = (Inr u, c', issued)
        \<and> first_success net (getPosts_candidates c' u n) K r listed
    \<longrightarrow> getPosts net c n = (Inr listed, c', issued @ requests_upto (getPosts_candidates c' u n) K))
   \<and> (first_success net (getConnectionsCount_candidates c) K r cnt
    \<longrightarrow> getConnectionsCount net c
          = (Inr cnt, requests_upto (getConnectionsCount_candidates c) K))"
  by (auto dest!: resolve_chain_first_success
       intro: getMemberUrn_chain getProfile_chain createPost_chain createArticlePost_chain
         deletePost_chain getPosts_chain getConnectionsCount_chain)

lemma legacy_identity:
  "getMemberUrn net_legacy_only known_client = (Inr ''urn:li:person:xyz'', known_client, [])"
  by code_simp

lemma legacy_first_success:
  "first_success net_legacy_only
     (createPost_candidates known_client ''urn:li:person:xyz'' ''hi'' PUBLIC) 1
     \<lparr>status = 201, headers = [], body_text = ''{id:urn:li:share:7}'',
      body_json = Some [(''id'', JStr ''urn:li:share:7'')]\<rparr>
     \<lparr>success = True, post_id = Some (JStr ''urn:li:share:7''), message = None\<rparr>"
  by code_simp

lemma id_only_first_success:
  "first_success net_id_only (identity_candidates (new_client ''AQX'')) 1
     \<lparr>status = 200, headers = [], body_text = ''{sub:xyz}'',
      body_json = Some [(''sub'', JStr ''xyz'')]\<rparr>
     ''urn:li:person:xyz''"
  by code_simp

text \<open>
  Runs of C4 as amended, each with \<open>K = 1\<close>: a text post refused by the current
  endpoint and accepted by the legacy one, and an identity resolved by the second
  candidate.
\<close>

theorem fallback_chain_first_success_witness:
  "createPost net_legacy_only known_client ''hi'' PUBLIC
     = (Inr \<lparr>success = True, post_id = Some (JStr ''urn:li:share:7''), message = None\<rparr>,
        known_client,
        [posts_request known_client (postData ''urn:li:person:xyz'' ''hi'' PUBLIC),
         ugcPosts_request known_client (legacyPostData ''urn:li:person:xyz'' ''hi'' PUBLIC)])
   \<and> getMemberUrn net_id_only (new_client ''AQX'')
     = (Inr ''urn:li:person:xyz'',
        \<lparr>accessToken = ''AQX'', memberUrn = Some ''urn:li:person:xyz''\<rparr>,
        [rest_me_request (new_client ''AQX''), userinfo_request (new_client ''AQX'')])"
  using fallback_chain_first_success
      [where net = net_legacy_only and c = known_client and u = "''urn:li:person:xyz''"
         and c' = known_client and issued = "[]" and body = "''hi''" and vis = PUBLIC and K = 1
         and r = "\<lparr>status = 201, headers = [], body_text = ''{id:urn:li:share:7}'',
                   body_json = Some [(''id'', JStr ''urn:li:share:7'')]\<rparr>"
         and res = "\<lparr>success = True, post_id = Some (JStr ''urn:li:share:7''), message = None\<rparr>"]
    fallback_chain_first_success
      [where net = net_id_only and c = "new_client ''AQX''" and K = 1
         and r = "\<lparr>status = 200, headers = [], body_text = ''{sub:xyz}'',
                   body_json = Some [(''sub'', JStr ''xyz'')]\<rparr>"
         and urn = "''urn:li:person:xyz''"]
    legacy_identity legacy_first_success id_only_first_success
  by (simp add: requests_upto_def createPost_candidates_def post_candidates_def
        identity_candidates_def new_client_def)

end
